theory Spec2Isabelle
  imports Main "HOL-Library.Word"
begin

unbundle bit_operations_syntax

section \<open>Machine types\<close>

text \<open>
  The embedding follows \<^verbatim>\<open>fs_mgr/libfs_avb/avb_util.cpp\<close> on an LP64 target.
  Unsigned integers are words; the signed types \<^verbatim>\<open>ssize_t\<close> and \<^verbatim>\<open>off64_t\<close> are
  64-bit words read in two's complement (\<open><s\<close>, \<open>sint\<close>).  A \<^verbatim>\<open>std::string\<close> and a
  byte buffer are both lists of 8-bit characters: \<^typ>\<open>char\<close> has exactly 256 values.
\<close>

type_synonym uint32_t = "32 word"
type_synonym uint64_t = "64 word"
type_synonym size_t = "64 word"
type_synonym ssize_t = "64 word"
type_synonym off64_t = "64 word"
type_synonym bytes = "char list"

section \<open>A/B partition names\<close>

text \<open>
  \<^verbatim>\<open>std::string::rfind(pat)\<close> with the default position: the greatest index at which
  \<open>pat\<close> occurs in \<open>s\<close>, or \<^verbatim>\<open>npos\<close> (here \<open>None\<close>).  \<open>rfind_from s pat i\<close> looks at
  index \<open>i\<close> first and then walks down to index 0.
\<close>

fun rfind_from :: "string \<Rightarrow> string \<Rightarrow> nat \<Rightarrow> nat option" where
  "rfind_from s pat 0 = (if take (length pat) s = pat then Some 0 else None)"
| "rfind_from s pat (Suc i) =
     (if take (length pat) (drop (Suc i) s) = pat then Some (Suc i) else rfind_from s pat i)"

definition rfind :: "string \<Rightarrow> string \<Rightarrow> nat option" where
  "rfind s pat =
     (if length s < length pat then None else rfind_from s pat (length s - length pat))"

text \<open>
  \<^verbatim>\<open>AvbPartitionToDevicePatition\<close>: the name is cut at the last occurrence of
  \<^verbatim>\<open>"_other"\<close> (\<^verbatim>\<open>erase(pos)\<close> keeps the first \<open>pos\<close> characters) and the suffix of the
  chosen slot is appended.
\<close>

definition AvbPartitionToDevicePatition :: "string \<Rightarrow> string \<Rightarrow> string \<Rightarrow> string" where
  "AvbPartitionToDevicePatition avb_partition_name ab_suffix ab_other_suffix =
     (case rfind avb_partition_name ''_other'' of
        None \<Rightarrow> avb_partition_name @ ab_suffix
      | Some other_suffix \<Rightarrow> take other_suffix avb_partition_name @ ab_other_suffix)"

text \<open>\<open>occurs_at s pat i\<close>: the pattern stands in \<open>s\<close> at index \<open>i\<close>.\<close>

definition occurs_at :: "string \<Rightarrow> string \<Rightarrow> nat \<Rightarrow> bool" where
  "occurs_at s pat i = (i + length pat \<le> length s \<and> take (length pat) (drop i s) = pat)"

section \<open>Verdicts and faults\<close>

text \<open>
  \<^verbatim>\<open>enum class VBMetaVerifyResult\<close>: the three values \<^verbatim>\<open>VBMetaVerifyResultToString\<close>
  names before its catch-all entry.
\<close>

datatype VBMetaVerifyResult = kSuccess | kError | kErrorVerification

text \<open>
  The verdict of libavb's \<^verbatim>\<open>avb_vbmeta_image_verify\<close>.  The last constructor stands
  for every value of the C enumeration that is none of the six enumerators: the
  \<^verbatim>\<open>default\<close> label of the switch.
\<close>

datatype AvbVBMetaVerifyResult =
    AVB_VBMETA_VERIFY_RESULT_OK
  | AVB_VBMETA_VERIFY_RESULT_OK_NOT_SIGNED
  | AVB_VBMETA_VERIFY_RESULT_INVALID_VBMETA_HEADER
  | AVB_VBMETA_VERIFY_RESULT_UNSUPPORTED_VERSION
  | AVB_VBMETA_VERIFY_RESULT_HASH_MISMATCH
  | AVB_VBMETA_VERIFY_RESULT_SIGNATURE_MISMATCH
  | AVB_VBMETA_VERIFY_RESULT_unknown int

text \<open>
  Behaviour the C++ standard leaves undefined is a value of the model: an integer
  division by zero, a dereference of a null pointer, a read of a local that was never
  assigned.
\<close>

datatype fault = DivisionByZero | NullDereference | UninitializedRead

section \<open>Data model\<close>

text \<open>
  \<^verbatim>\<open>class VBMetaData\<close>: the buffer, its logical size and the partition it was read
  from.  \<open>vbmeta_ptr\<close> holds the bytes stored into the buffer; what the rest of the
  allocation holds is not determined by the program.
\<close>

record VBMetaData =
  vbmeta_ptr :: bytes
  vbmeta_size :: size_t
  partition :: string

record AvbFooter =
  footer_vbmeta_offset :: uint64_t
  footer_vbmeta_size :: uint64_t

text \<open>
  The structures of libavb, with the fields the program reads.  In
  \<^verbatim>\<open>AvbHashtreeDescriptor\<close> the member \<^verbatim>\<open>uint8_t hash_algorithm[32]\<close> is read as a C string
  only; the field \<open>hash_algorithm\<close> stands for the memory that read can reach (see
  \<^verbatim>\<open>ConstructVerityTable\<close>).
\<close>

record AvbVBMetaImageHeader =
  authentication_data_block_size :: uint64_t
  auxiliary_data_block_size :: uint64_t
  rollback_index :: uint64_t
  flags :: uint32_t

record AvbDescriptor =
  tag :: uint64_t
  num_bytes_following :: uint64_t

record AvbHashtreeDescriptor =
  dm_verity_version :: uint32_t
  image_size :: uint64_t
  tree_offset :: uint64_t
  data_block_size :: uint32_t
  hash_block_size :: uint32_t
  fec_num_roots :: uint32_t
  fec_offset :: uint64_t
  fec_size :: uint64_t
  hash_algorithm :: bytes
  partition_name_len :: uint32_t
  salt_len :: uint32_t
  root_digest_len :: uint32_t

record AvbChainPartitionDescriptor =
  chain_partition_name_len :: uint32_t
  public_key_len :: uint32_t

record ChainInfo =
  chain_partition_name :: string
  public_key_blob :: bytes

record FstabEntry =
  blk_device :: string
  mount_point :: string

text \<open>
  \<^verbatim>\<open>android::dm::DmTargetVerity\<close> as \<^verbatim>\<open>ConstructVerityTable\<close> builds it: the arguments
  of the constructor, each with the value and type of the expression at the call, and
  the member functions called on the object afterwards, in order.  For \<open>UseFec\<close> the
  arguments are the device, the number of roots, the number of blocks and the start.
\<close>

datatype verity_call =
    UseFec string uint32_t uint64_t uint64_t
  | SetVerityMode string
  | IgnoreZeroBlocks

record DmTargetVerity =
  verity_start :: uint64_t
  verity_length :: uint64_t
  verity_version :: uint32_t
  data_device :: string
  hash_device :: string
  verity_data_block_size :: uint32_t
  verity_hash_block_size :: uint32_t
  num_data_blocks :: uint64_t
  hash_start_block :: uint64_t
  verity_hash_algorithm :: string
  verity_root_digest :: string
  verity_salt :: string
  calls :: "verity_call list"

section \<open>External collaborators\<close>

text \<open>
  libavb is a parameter of every function that calls it: its constants and its
  primitives.  A pointer into a buffer is the list of bytes from that address on; a
  null pointer is \<open>None\<close>.
  \<^item> \<open>avb_vbmeta_image_verify data size\<close> gives the verdict and what it stored in
    \<^verbatim>\<open>pk_data\<close> and \<^verbatim>\<open>pk_len\<close>.
  \<^item> \<open>avb_descriptor_get_all data size\<close> gives the array of descriptor pointers
    (\<^verbatim>\<open>num_descriptors\<close> is its length), or a null pointer.
  \<^item> \<open>avb_hashtree_descriptor_validate_and_byteswap src\<close> gives the result and the
    content of \<^verbatim>\<open>dest\<close> after the call.
\<close>

record libavb =
  sizeof_AvbVBMetaImageHeader :: size_t
  sizeof_AvbHashtreeDescriptor :: nat
  sizeof_AvbChainPartitionDescriptor :: nat
  AVB_DESCRIPTOR_TAG_HASHTREE :: uint64_t
  AVB_DESCRIPTOR_TAG_CHAIN_PARTITION :: uint64_t
  AVB_VBMETA_IMAGE_FLAGS_VERIFICATION_DISABLED :: uint32_t
  avb_vbmeta_image_header_to_host_byte_order :: "bytes \<Rightarrow> AvbVBMetaImageHeader"
  avb_footer_validate_and_byteswap :: "bytes \<Rightarrow> AvbFooter option"
  avb_vbmeta_image_verify :: "bytes \<Rightarrow> size_t \<Rightarrow> AvbVBMetaVerifyResult \<times> bytes option \<times> size_t"
  avb_descriptor_get_all :: "bytes \<Rightarrow> size_t \<Rightarrow> bytes list option"
  avb_descriptor_validate_and_byteswap :: "bytes \<Rightarrow> AvbDescriptor option"
  avb_hashtree_descriptor_validate_and_byteswap :: "bytes \<Rightarrow> bool \<times> AvbHashtreeDescriptor"
  avb_chain_partition_descriptor_validate_and_byteswap ::
    "bytes \<Rightarrow> AvbChainPartitionDescriptor option"

datatype whence = SEEK_SET | SEEK_CUR | SEEK_END

text \<open>
  The operating system, the boot configuration and libdm, over a state of the world
  \<open>'w\<close>, file descriptors \<open>'fd\<close> and device-mapper tables \<open>'tbl\<close>.
  \<^item> \<open>WaitForFile path w\<close>: whether the path appeared within the second waited for.
  \<^item> \<open>open_rdonly path w\<close>: the descriptor, or \<open>None\<close> when \<^verbatim>\<open>open\<close> fails.
  \<^item> \<open>pread64 fd count offset\<close>: the value returned once the call is not interrupted
    any more, and the bytes stored in the buffer.
  \<^item> \<open>fs_mgr_get_boot_config key\<close>: the value, \<open>None\<close> when the key is absent.
  \<^item> \<open>dm_CreateDevice name table w\<close>: whether the device was created, and the world
    after the attempt.
\<close>

record ('w, 'fd, 'tbl) sys =
  WaitForFile :: "string \<Rightarrow> 'w \<Rightarrow> bool"
  open_rdonly :: "string \<Rightarrow> 'w \<Rightarrow> 'fd option"
  pread64 :: "'fd \<Rightarrow> size_t \<Rightarrow> off64_t \<Rightarrow> ssize_t \<times> bytes"
  lseek64 :: "'fd \<Rightarrow> off64_t \<Rightarrow> whence \<Rightarrow> off64_t"
  fs_mgr_get_boot_config :: "string \<Rightarrow> string option"
  BytesToHex :: "bytes \<Rightarrow> string"
  basename :: "string \<Rightarrow> string"
  SetBlockDeviceReadOnly :: "string \<Rightarrow> 'w \<Rightarrow> 'w"
  dm_new_table :: "'tbl"
  dm_AddTarget :: "'tbl \<Rightarrow> DmTargetVerity \<Rightarrow> bool \<times> 'tbl"
  dm_valid :: "'tbl \<Rightarrow> bool"
  dm_set_readonly :: "'tbl \<Rightarrow> bool \<Rightarrow> 'tbl"
  dm_CreateDevice :: "string \<Rightarrow> 'tbl \<Rightarrow> 'w \<Rightarrow> bool \<times> 'w"
  dm_GetDmDevicePathByName :: "string \<Rightarrow> 'w \<Rightarrow> string option"

text \<open>
  Modelled from the spec: \<^verbatim>\<open>avb_util.h\<close>, which declares
  \<^verbatim>\<open>VBMetaData::kMaxVBMetaSize\<close>, is not among the sources; the ceiling is 64 KiB.
\<close>

definition kMaxVBMetaSize :: uint64_t where
  "kMaxVBMetaSize = 64 * 1024"

text \<open>
  Modelled from the spec: libavb's \<^verbatim>\<open>AVB_FOOTER_SIZE\<close> is not among the sources; the
  footer is exactly 64 bytes.
\<close>

definition AVB_FOOTER_SIZE :: size_t where
  "AVB_FOOTER_SIZE = 64"

text \<open>
  Modelled from the spec: \<^verbatim>\<open>android::base::StartsWith\<close> is not among the sources; the
  name begins with the prefix.
\<close>

definition StartsWith :: "string \<Rightarrow> string \<Rightarrow> bool" where
  "StartsWith s prefix = (take (length prefix) s = prefix)"

section \<open>The VBMeta header\<close>

text \<open>
  \<^verbatim>\<open>VBMetaData::GetVBMetaHeader\<close>: the header in host byte order and the object after
  the call.  \<^verbatim>\<open>std::make_unique\<close> does not return a null pointer, so the header is
  always there.  The sum is computed in \<^verbatim>\<open>size_t\<close> and wraps.
\<close>

definition GetVBMetaHeader ::
  "libavb \<Rightarrow> VBMetaData \<Rightarrow> bool \<Rightarrow> AvbVBMetaImageHeader option \<times> VBMetaData" where
  "GetVBMetaHeader avb vbmeta update_vbmeta_size =
     (let vbmeta_header = avb_vbmeta_image_header_to_host_byte_order avb (vbmeta_ptr vbmeta)
      in (Some vbmeta_header,
          if update_vbmeta_size
          then vbmeta\<lparr>vbmeta_size :=
                 sizeof_AvbVBMetaImageHeader avb +
                 authentication_data_block_size vbmeta_header +
                 auxiliary_data_block_size vbmeta_header\<rparr>
          else vbmeta))"

section \<open>The verity table\<close>

text \<open>
  Lines 86 to 121 of \<^verbatim>\<open>ConstructVerityTable\<close>: the object \<^verbatim>\<open>target\<close> as it stands when
  it is handed to \<^verbatim>\<open>DmTable::AddTarget\<close>.  \<open>Inr None\<close> is the \<^verbatim>\<open>return false\<close> on an
  unknown verity mode.  The stream insertion of \<^verbatim>\<open>hash_algorithm\<close> takes the array as
  a C string: it copies the bytes from the start of the array up to the first NUL,
  wherever that NUL lies, and never looks at the length of the array.  The field
  \<open>hash_algorithm\<close> of the record is therefore the memory from the start of the array on,
  as for every other pointer here: the 32 bytes of the array followed by what lies behind
  them, so that for an array without a NUL the name goes on with the bytes behind the
  array, as the read of the source does.  The divisors are read from the descriptor as
  they are; a zero divisor is a fault.
\<close>

definition VerityTarget ::
  "('w, 'fd, 'tbl) sys \<Rightarrow> AvbHashtreeDescriptor \<Rightarrow> string \<Rightarrow> string \<Rightarrow> string \<Rightarrow>
     fault + DmTargetVerity option" where
  "VerityTarget os hashtree_desc salt root_digest blk_dev =
     (let verity_mode =
            (case fs_mgr_get_boot_config os ''veritymode'' of
               None \<Rightarrow> ''enforcing''
             | Some m \<Rightarrow> m);
          dm_verity_mode =
            (if verity_mode = ''enforcing'' then Some ''restart_on_corruption''
             else if verity_mode = ''logging'' then Some ''ignore_corruption''
             else if verity_mode \<noteq> ''eio'' then None
             else Some [])
      in case dm_verity_mode of
           None \<Rightarrow> Inr None
         | Some dm_verity_mode \<Rightarrow>
             if data_block_size hashtree_desc = 0 \<or> hash_block_size hashtree_desc = 0
             then Inl DivisionByZero
             else Inr (Some
               \<lparr>verity_start = 0,
                verity_length = image_size hashtree_desc div 512,
                verity_version = dm_verity_version hashtree_desc,
                data_device = blk_dev,
                hash_device = blk_dev,
                verity_data_block_size = data_block_size hashtree_desc,
                verity_hash_block_size = hash_block_size hashtree_desc,
                num_data_blocks =
                  image_size hashtree_desc div ucast (data_block_size hashtree_desc),
                hash_start_block =
                  tree_offset hashtree_desc div ucast (hash_block_size hashtree_desc),
                verity_hash_algorithm =
                  takeWhile (\<lambda>c. c \<noteq> CHR 0x00) (hash_algorithm hashtree_desc),
                verity_root_digest = root_digest,
                verity_salt = salt,
                calls =
                  (if fec_size hashtree_desc > 0
                   then [UseFec blk_dev (fec_num_roots hashtree_desc)
                           (fec_offset hashtree_desc div ucast (data_block_size hashtree_desc))
                           (fec_offset hashtree_desc div ucast (data_block_size hashtree_desc))]
                   else []) @
                  (if dm_verity_mode \<noteq> [] then [SetVerityMode dm_verity_mode] else []) @
                  [IgnoreZeroBlocks]\<rparr>))"

text \<open>\<^verbatim>\<open>ConstructVerityTable\<close>: the result and the table after the call.\<close>

definition ConstructVerityTable ::
  "('w, 'fd, 'tbl) sys \<Rightarrow> AvbHashtreeDescriptor \<Rightarrow> string \<Rightarrow> string \<Rightarrow> string \<Rightarrow> 'tbl \<Rightarrow>
     fault + bool \<times> 'tbl" where
  "ConstructVerityTable os hashtree_desc salt root_digest blk_dev table =
     (case VerityTarget os hashtree_desc salt root_digest blk_dev of
        Inl f \<Rightarrow> Inl f
      | Inr None \<Rightarrow> Inr (False, table)
      | Inr (Some target) \<Rightarrow> Inr (dm_AddTarget os table target))"

text \<open>
  \<^verbatim>\<open>HashtreeDmVeritySetup\<close>: the result, the fstab entry and the world after the call.
\<close>

definition HashtreeDmVeritySetup ::
  "('w, 'fd, 'tbl) sys \<Rightarrow> FstabEntry \<Rightarrow> AvbHashtreeDescriptor \<Rightarrow> string \<Rightarrow> string \<Rightarrow> bool \<Rightarrow>
     'w \<Rightarrow> fault + bool \<times> FstabEntry \<times> 'w" where
  "HashtreeDmVeritySetup os fstab_entry hashtree_desc salt root_digest wait_for_verity_dev w =
     (case ConstructVerityTable os hashtree_desc salt root_digest (blk_device fstab_entry)
             (dm_new_table os) of
        Inl f \<Rightarrow> Inl f
      | Inr (constructed, table) \<Rightarrow>
          if \<not> constructed \<or> \<not> dm_valid os table then Inr (False, fstab_entry, w)
          else
            let table = dm_set_readonly os table True;
                mount_point = basename os (mount_point fstab_entry)
            in case dm_CreateDevice os mount_point table w of
                 (created, w1) \<Rightarrow>
                   if \<not> created then Inr (False, fstab_entry, w1)
                   else
                     (case dm_GetDmDevicePathByName os mount_point w1 of
                        None \<Rightarrow> Inr (False, fstab_entry, w1)
                      | Some dev_path \<Rightarrow>
                          let w2 = SetBlockDeviceReadOnly os (blk_device fstab_entry) w1;
                              fstab_entry = fstab_entry\<lparr>blk_device := dev_path\<rparr>
                          in if wait_for_verity_dev \<and> \<not> WaitForFile os dev_path w2
                             then Inr (False, fstab_entry, w2)
                             else Inr (True, fstab_entry, w2)))"

section \<open>Hashtree descriptor lookup\<close>

text \<open>
  The locals of \<^verbatim>\<open>GetHashtreeDescriptor\<close> that live across its loops, and the
  descriptor behind \<^verbatim>\<open>out_hashtree_desc\<close>.  \<open>desc_partition_name\<close> is \<open>None\<close> as long as
  the pointer has not been assigned.
\<close>

record hashtree_scan =
  found :: bool
  desc_partition_name :: "bytes option"
  out_hashtree_desc :: AvbHashtreeDescriptor

text \<open>The inner loop, \<^verbatim>\<open>for (n = 0; n < num_descriptors && !found; n++)\<close>.\<close>

fun scan_descriptors :: "libavb \<Rightarrow> string \<Rightarrow> bytes list \<Rightarrow> hashtree_scan \<Rightarrow> hashtree_scan" where
  "scan_descriptors avb partition_name [] st = st"
| "scan_descriptors avb partition_name (d # ds) st =
     (if found st then st
      else case avb_descriptor_validate_and_byteswap avb d of
        None \<Rightarrow> scan_descriptors avb partition_name ds st
      | Some desc \<Rightarrow>
          if tag desc = AVB_DESCRIPTOR_TAG_HASHTREE avb then
            let st = st\<lparr>desc_partition_name := Some (drop (sizeof_AvbHashtreeDescriptor avb) d)\<rparr>;
                (valid, hashtree) = avb_hashtree_descriptor_validate_and_byteswap avb d;
                st = st\<lparr>out_hashtree_desc := hashtree\<rparr>
            in if \<not> valid then scan_descriptors avb partition_name ds st
               else if unat (partition_name_len hashtree) \<noteq> length partition_name
               then scan_descriptors avb partition_name ds st
               else if take (unat (partition_name_len hashtree))
                         (drop (sizeof_AvbHashtreeDescriptor avb) d) = partition_name
               then scan_descriptors avb partition_name ds (st\<lparr>found := True\<rparr>)
               else scan_descriptors avb partition_name ds st
          else scan_descriptors avb partition_name ds st)"

text \<open>The outer loop over the VBMeta images.\<close>

fun scan_images :: "libavb \<Rightarrow> string \<Rightarrow> VBMetaData list \<Rightarrow> hashtree_scan \<Rightarrow> hashtree_scan" where
  "scan_images avb partition_name [] st = st"
| "scan_images avb partition_name (vbmeta # rest) st =
     (case avb_descriptor_get_all avb (vbmeta_ptr vbmeta) (vbmeta_size vbmeta) of
        None \<Rightarrow> scan_images avb partition_name rest st
      | Some descriptors \<Rightarrow>
          if length descriptors < 1 then scan_images avb partition_name rest st
          else
            let st = scan_descriptors avb partition_name descriptors st
            in if found st then st else scan_images avb partition_name rest st)"

text \<open>
  \<^verbatim>\<open>GetHashtreeDescriptor\<close>: the result and the three output parameters after the call;
  \<open>desc0\<close>, \<open>salt0\<close> and \<open>digest0\<close> are what they held before it.
\<close>

definition GetHashtreeDescriptor ::
  "libavb \<Rightarrow> ('w, 'fd, 'tbl) sys \<Rightarrow> string \<Rightarrow> VBMetaData list \<Rightarrow>
     AvbHashtreeDescriptor \<Rightarrow> string \<Rightarrow> string \<Rightarrow>
     fault + bool \<times> AvbHashtreeDescriptor \<times> string \<times> string" where
  "GetHashtreeDescriptor avb os partition_name vbmeta_images desc0 salt0 digest0 =
     (let st = scan_images avb partition_name vbmeta_images
                 \<lparr>found = False, desc_partition_name = None, out_hashtree_desc = desc0\<rparr>
      in if \<not> found st then Inr (False, out_hashtree_desc st, salt0, digest0)
         else case desc_partition_name st of
           None \<Rightarrow> Inl UninitializedRead
         | Some name_ptr \<Rightarrow>
             let hashtree = out_hashtree_desc st;
                 desc_salt = drop (unat (partition_name_len hashtree)) name_ptr;
                 desc_digest = drop (unat (salt_len hashtree)) desc_salt
             in Inr (True, hashtree,
                     BytesToHex os (take (unat (salt_len hashtree)) desc_salt),
                     BytesToHex os (take (unat (root_digest_len hashtree)) desc_digest)))"

section \<open>Footer and signature\<close>

text \<open>
  \<^verbatim>\<open>GetTotalSize\<close>.  The third \<^verbatim>\<open>lseek64\<close>, which restores the offset, only logs when it
  fails and has no part in the value returned.
\<close>

definition GetTotalSize :: "('w, 'fd, 'tbl) sys \<Rightarrow> 'fd \<Rightarrow> off64_t" where
  "GetTotalSize os fd =
     (let saved_current = lseek64 os fd 0 SEEK_CUR
      in if saved_current = - 1 then - 1
         else
           let total_size = lseek64 os fd 0 SEEK_END
           in if total_size = - 1 then - 1 else total_size)"

definition GetAvbFooter :: "libavb \<Rightarrow> ('w, 'fd, 'tbl) sys \<Rightarrow> 'fd \<Rightarrow> AvbFooter option" where
  "GetAvbFooter avb os fd =
     (let footer_offset = GetTotalSize os fd - AVB_FOOTER_SIZE;
          (num_read, footer_buf) = pread64 os fd AVB_FOOTER_SIZE footer_offset
      in if num_read <s 0 \<or> num_read \<noteq> AVB_FOOTER_SIZE then None
         else avb_footer_validate_and_byteswap avb footer_buf)"

text \<open>
  \<^verbatim>\<open>VerifyPublicKeyBlob\<close>: \<open>key\<close> is the memory at the pointer, \<open>len\<close> the length given
  with it; \<^verbatim>\<open>memcmp\<close> compares the first \<open>len\<close> bytes of both.
\<close>

definition VerifyPublicKeyBlob :: "bytes \<Rightarrow> size_t \<Rightarrow> bytes \<Rightarrow> bool" where
  "VerifyPublicKeyBlob key len expected_key_blob =
     (if expected_key_blob = [] then True
      else if length expected_key_blob \<noteq> unat len then False
      else if take (unat len) key = take (unat len) expected_key_blob then True
      else False)"

definition VerifyVBMetaSignature :: "libavb \<Rightarrow> VBMetaData \<Rightarrow> bytes \<Rightarrow> VBMetaVerifyResult" where
  "VerifyVBMetaSignature avb vbmeta expected_public_key_blob =
     (case avb_vbmeta_image_verify avb (vbmeta_ptr vbmeta) (vbmeta_size vbmeta) of
        (vbmeta_ret, pk_data, pk_len) \<Rightarrow>
          (case vbmeta_ret of
             AVB_VBMETA_VERIFY_RESULT_OK \<Rightarrow>
               (case pk_data of
                  None \<Rightarrow> kError
                | Some key \<Rightarrow>
                    if pk_len \<le> 0 then kError
                    else if \<not> VerifyPublicKeyBlob key pk_len expected_public_key_blob
                    then kErrorVerification
                    else kSuccess)
           | AVB_VBMETA_VERIFY_RESULT_OK_NOT_SIGNED \<Rightarrow> kErrorVerification
           | AVB_VBMETA_VERIFY_RESULT_HASH_MISMATCH \<Rightarrow> kErrorVerification
           | AVB_VBMETA_VERIFY_RESULT_SIGNATURE_MISMATCH \<Rightarrow> kErrorVerification
           | AVB_VBMETA_VERIFY_RESULT_INVALID_VBMETA_HEADER \<Rightarrow> kError
           | AVB_VBMETA_VERIFY_RESULT_UNSUPPORTED_VERSION \<Rightarrow> kError
           | AVB_VBMETA_VERIFY_RESULT_unknown v \<Rightarrow> kError))"

text \<open>
  \<^verbatim>\<open>VerifyVBMetaData\<close>.  \<open>None\<close>: a null pointer is returned and nothing was stored through
  \<^verbatim>\<open>out_verify_result\<close>.  \<open>Some (r, v)\<close>: \<open>r\<close> was stored through \<^verbatim>\<open>out_verify_result\<close> (when
  that pointer is not null) and \<open>v\<close> is returned, a null pointer when it is \<open>None\<close>.
  The locals \<^verbatim>\<open>vbmeta_offset\<close> and \<^verbatim>\<open>vbmeta_size\<close> are \<open>read_offset\<close> and \<open>read_size\<close>.
\<close>

definition VerifyVBMetaData ::
  "libavb \<Rightarrow> ('w, 'fd, 'tbl) sys \<Rightarrow> 'fd \<Rightarrow> string \<Rightarrow> bytes \<Rightarrow>
     (VBMetaVerifyResult \<times> VBMetaData option) option" where
  "VerifyVBMetaData avb os fd partition_name expected_public_key_blob =
     (let is_vbmeta_partition = StartsWith partition_name ''vbmeta''
      in case (if \<not> is_vbmeta_partition
               then (case GetAvbFooter avb os fd of
                       None \<Rightarrow> None
                     | Some footer \<Rightarrow>
                         Some (footer_vbmeta_offset footer, footer_vbmeta_size footer))
               else Some (0, kMaxVBMetaSize)) of
           None \<Rightarrow> None
         | Some (read_offset, read_size) \<Rightarrow>
             if read_size > kMaxVBMetaSize then None
             else
               (case pread64 os fd read_size read_offset of
                  (num_read, buf) \<Rightarrow>
                    if num_read <s 0 \<or> (\<not> is_vbmeta_partition \<and> num_read \<noteq> read_size)
                    then None
                    else
                      let vbmeta = \<lparr>vbmeta_ptr = buf, vbmeta_size = read_size,
                                    partition = partition_name\<rparr>;
                          verify_result =
                            VerifyVBMetaSignature avb vbmeta expected_public_key_blob
                      in if verify_result = kSuccess \<or> verify_result = kErrorVerification
                         then Some (verify_result, Some vbmeta)
                         else Some (verify_result, None)))"

section \<open>The chain walk\<close>

definition RollbackDetected :: "string \<Rightarrow> uint64_t \<Rightarrow> bool" where
  "RollbackDetected partition_name rollback_idx = False"

text \<open>
  The loop of \<^verbatim>\<open>GetChainPartitionInfo\<close>; \<open>None\<close> is the exit that sets
  \<^verbatim>\<open>*fatal_error\<close> and returns the empty vector.
\<close>

fun collect_chain_partitions ::
  "libavb \<Rightarrow> bytes list \<Rightarrow> ChainInfo list \<Rightarrow> ChainInfo list option" where
  "collect_chain_partitions avb [] chain_partitions = Some chain_partitions"
| "collect_chain_partitions avb (d # ds) chain_partitions =
     (case avb_descriptor_validate_and_byteswap avb d of
        None \<Rightarrow> None
      | Some desc \<Rightarrow>
          if tag desc = AVB_DESCRIPTOR_TAG_CHAIN_PARTITION avb then
            (case avb_chain_partition_descriptor_validate_and_byteswap avb d of
               None \<Rightarrow> None
             | Some chain_desc \<Rightarrow>
                 let chain_name = drop (sizeof_AvbChainPartitionDescriptor avb) d;
                     chain_public_key_blob =
                       drop (unat (chain_partition_name_len chain_desc)) chain_name
                 in collect_chain_partitions avb ds
                      (chain_partitions @
                       [\<lparr>chain_partition_name =
                           take (unat (chain_partition_name_len chain_desc)) chain_name,
                         public_key_blob =
                           take (unat (public_key_len chain_desc)) chain_public_key_blob\<rparr>]))
          else collect_chain_partitions avb ds chain_partitions)"

text \<open>
  \<^verbatim>\<open>GetChainPartitionInfo\<close>: the vector returned and \<^verbatim>\<open>*fatal_error\<close> after the call.
\<close>

definition GetChainPartitionInfo :: "libavb \<Rightarrow> VBMetaData \<Rightarrow> bool \<Rightarrow> ChainInfo list \<times> bool" where
  "GetChainPartitionInfo avb vbmeta fatal_error =
     (case avb_descriptor_get_all avb (vbmeta_ptr vbmeta) (vbmeta_size vbmeta) of
        None \<Rightarrow> ([], fatal_error)
      | Some descriptors \<Rightarrow>
          if length descriptors < 1 then ([], fatal_error)
          else
            (case collect_chain_partitions avb descriptors [] of
               None \<Rightarrow> ([], True)
             | Some chain_partitions \<Rightarrow> (chain_partitions, fatal_error)))"

text \<open>
  The log statements of \<^verbatim>\<open>LoadAndVerifyVbmetaImpl\<close> itself, each with what it prints:
  the device path or the partition name, and for the third the value read from the
  local \<^verbatim>\<open>verify_result\<close> (\<open>None\<close> when nothing was stored in it).
\<close>

datatype log_event =
    PERROR_no_such_partition string
  | PERROR_failed_to_open string
  | LERROR_failed_to_load_vbmeta string "VBMetaVerifyResult option"
  | LERROR_verification_error_not_allowed string
  | LERROR_failed_to_get_vbmeta_header string
  | LERROR_chained_vbmeta_has_flags string
  | LWARNING_verification_disabled string

text \<open>
  What the walk changes: the vector behind \<^verbatim>\<open>out_vbmeta_images\<close> (\<open>None\<close> for a null
  pointer) and the lines logged so far.
\<close>

record walk =
  out_vbmeta_images :: "VBMetaData list option"
  logged :: "log_event list"

definition emit :: "log_event \<Rightarrow> walk \<Rightarrow> walk" where
  "emit e st = st\<lparr>logged := logged st @ [e]\<rparr>"

text \<open>
  A call of the walk gives \<open>None\<close> when its fuel does not suffice, a fault, or the
  verdict returned and the state after the call.
\<close>

type_synonym walk_result = "(fault + VBMetaVerifyResult \<times> walk) option"

text \<open>
  The loop over \<^verbatim>\<open>chain_partitions\<close> at the end of \<^verbatim>\<open>LoadAndVerifyVbmetaImpl\<close>;
  \<open>load chain st\<close> is the recursive call for one chain partition.
\<close>

fun chain_loop ::
  "(ChainInfo \<Rightarrow> walk \<Rightarrow> walk_result) \<Rightarrow> ChainInfo list \<Rightarrow> VBMetaVerifyResult \<Rightarrow> walk \<Rightarrow>
     walk_result" where
  "chain_loop load [] verify_result st = Some (Inr (verify_result, st))"
| "chain_loop load (chain # rest) verify_result st =
     (case load chain st of
        None \<Rightarrow> None
      | Some (Inl f) \<Rightarrow> Some (Inl f)
      | Some (Inr (sub_ret, st')) \<Rightarrow>
          if sub_ret \<noteq> kSuccess then
            (if sub_ret = kError then Some (Inr (sub_ret, st'))
             else chain_loop load rest sub_ret st')
          else chain_loop load rest verify_result st')"

text \<open>
  \<^verbatim>\<open>LoadAndVerifyVbmetaImpl\<close>.  The chain descriptors may lead back to a partition
  already visited, so the recursion is bounded by fuel: each level of the chain takes
  one unit.  The file system is the same at every call (\<open>w\<close>).
\<close>

fun LoadAndVerifyVbmetaImpl ::
  "nat \<Rightarrow> libavb \<Rightarrow> ('w, 'fd, 'tbl) sys \<Rightarrow> 'w \<Rightarrow> string \<Rightarrow> string \<Rightarrow> string \<Rightarrow> bytes \<Rightarrow>
     bool \<Rightarrow> bool \<Rightarrow> bool \<Rightarrow> (string \<Rightarrow> string) \<Rightarrow> bool \<Rightarrow> walk \<Rightarrow> walk_result" where
  "LoadAndVerifyVbmetaImpl 0 avb os w partition_name ab_suffix ab_other_suffix
     expected_public_key_blob allow_verification_error load_chained_vbmeta
     rollback_protection device_path_constructor is_chained_vbmeta st = None"
| "LoadAndVerifyVbmetaImpl (Suc fuel) avb os w partition_name ab_suffix ab_other_suffix
     expected_public_key_blob allow_verification_error load_chained_vbmeta
     rollback_protection device_path_constructor is_chained_vbmeta st =
     (let device_path = device_path_constructor
            (AvbPartitionToDevicePatition partition_name ab_suffix ab_other_suffix)
      in if \<not> WaitForFile os device_path w
         then Some (Inr (kError, emit (PERROR_no_such_partition device_path) st))
         else case open_rdonly os device_path w of
           None \<Rightarrow> Some (Inr (kError, emit (PERROR_failed_to_open device_path) st))
         | Some fd \<Rightarrow>
             (case VerifyVBMetaData avb os fd partition_name expected_public_key_blob of
                None \<Rightarrow>
                  Some (Inr (kError, emit (LERROR_failed_to_load_vbmeta partition_name None) st))
              | Some (verify_result, None) \<Rightarrow>
                  Some (Inr (kError,
                    emit (LERROR_failed_to_load_vbmeta partition_name (Some verify_result)) st))
              | Some (verify_result, Some vbmeta) \<Rightarrow>
                  if \<not> allow_verification_error \<and> verify_result = kErrorVerification
                  then Some (Inr (kError,
                         emit (LERROR_verification_error_not_allowed partition_name) st))
                  else
                    (case GetVBMetaHeader avb vbmeta True of
                       (None, vbmeta) \<Rightarrow>
                         Some (Inr (kError,
                           emit (LERROR_failed_to_get_vbmeta_header partition_name) st))
                     | (Some vbmeta_header, vbmeta) \<Rightarrow>
                         if rollback_protection \<and>
                            RollbackDetected partition_name (rollback_index vbmeta_header)
                         then Some (Inr (kError, st))
                         else if is_chained_vbmeta \<and> flags vbmeta_header \<noteq> 0
                         then Some (Inr (kError,
                                emit (LERROR_chained_vbmeta_has_flags partition_name) st))
                         else
                           let st = (case out_vbmeta_images st of
                                       None \<Rightarrow> st
                                     | Some images \<Rightarrow>
                                         st\<lparr>out_vbmeta_images := Some (images @ [vbmeta])\<rparr>)
                           in if flags vbmeta_header AND
                                   AVB_VBMETA_IMAGE_FLAGS_VERIFICATION_DISABLED avb \<noteq> 0
                              then Some (Inr (verify_result,
                                     emit (LWARNING_verification_disabled partition_name) st))
                              else if load_chained_vbmeta then
                                (case out_vbmeta_images st of
                                   None \<Rightarrow> Some (Inl NullDereference)
                                 | Some images \<Rightarrow>
                                     (case GetChainPartitionInfo avb (last images) False of
                                        (chain_partitions, fatal_error) \<Rightarrow>
                                          if fatal_error then Some (Inr (kError, st))
                                          else
                                            chain_loop
                                              (\<lambda>chain st.
                                                 LoadAndVerifyVbmetaImpl fuel avb os w
                                                   (chain_partition_name chain) ab_suffix
                                                   ab_other_suffix (public_key_blob chain)
                                                   allow_verification_error load_chained_vbmeta
                                                   rollback_protection device_path_constructor
                                                   True st)
                                              chain_partitions verify_result st))
                              else Some (Inr (verify_result, st)))))"

section \<open>Notions used to state the properties\<close>

text \<open>The verity modes set on a target and the FEC calls made on it, in order.\<close>

fun mode_of_call :: "verity_call \<Rightarrow> string option" where
  "mode_of_call (SetVerityMode m) = Some m"
| "mode_of_call (UseFec dev roots blocks start) = None"
| "mode_of_call IgnoreZeroBlocks = None"

definition verity_modes :: "DmTargetVerity \<Rightarrow> string list" where
  "verity_modes target = List.map_filter mode_of_call (calls target)"

fun is_UseFec :: "verity_call \<Rightarrow> bool" where
  "is_UseFec (UseFec dev roots blocks start) = True"
| "is_UseFec (SetVerityMode m) = False"
| "is_UseFec IgnoreZeroBlocks = False"

definition fec_calls :: "DmTargetVerity \<Rightarrow> verity_call list" where
  "fec_calls target = filter is_UseFec (calls target)"

text \<open>
  A descriptor matches a partition name when it passes the generic validation, carries
  the hashtree tag, passes the hashtree validation, its \<^verbatim>\<open>partition_name_len\<close> is the length
  of the name, and the bytes after the fixed part of the descriptor are the name.
\<close>

definition hashtree_descriptor_matches :: "libavb \<Rightarrow> string \<Rightarrow> bytes \<Rightarrow> bool" where
  "hashtree_descriptor_matches avb partition_name d =
     (case avb_descriptor_validate_and_byteswap avb d of
        None \<Rightarrow> False
      | Some desc \<Rightarrow>
          tag desc = AVB_DESCRIPTOR_TAG_HASHTREE avb \<and>
          (case avb_hashtree_descriptor_validate_and_byteswap avb d of
             (valid, hashtree) \<Rightarrow>
               valid \<and> unat (partition_name_len hashtree) = length partition_name \<and>
               take (unat (partition_name_len hashtree))
                 (drop (sizeof_AvbHashtreeDescriptor avb) d) = partition_name))"

text \<open>
  The recursive call that \<^verbatim>\<open>LoadAndVerifyVbmetaImpl\<close> makes for one chain partition:
  the name and the key of the entry, \<^verbatim>\<open>is_chained_vbmeta\<close> true, every other argument
  as it was given.
\<close>

definition chain_call ::
  "nat \<Rightarrow> libavb \<Rightarrow> ('w, 'fd, 'tbl) sys \<Rightarrow> 'w \<Rightarrow> string \<Rightarrow> string \<Rightarrow> bool \<Rightarrow> bool \<Rightarrow> bool \<Rightarrow>
     (string \<Rightarrow> string) \<Rightarrow> ChainInfo \<Rightarrow> walk \<Rightarrow> walk_result" where
  "chain_call fuel avb os w ab_suffix ab_other_suffix allow_verification_error
     load_chained_vbmeta rollback_protection device_path_constructor chain st =
     LoadAndVerifyVbmetaImpl fuel avb os w (chain_partition_name chain) ab_suffix
       ab_other_suffix (public_key_blob chain) allow_verification_error load_chained_vbmeta
       rollback_protection device_path_constructor True st"

text \<open>
  Calls made one after the other, each from the state the call before it left: the
  verdicts they return and the state after the last; \<open>None\<close> when one of them faults or
  has no fuel left.
\<close>

fun run_children ::
  "(ChainInfo \<Rightarrow> walk \<Rightarrow> walk_result) \<Rightarrow> ChainInfo list \<Rightarrow> walk \<Rightarrow>
     (VBMetaVerifyResult list \<times> walk) option" where
  "run_children child [] st = Some ([], st)"
| "run_children child (chain # rest) st =
     (case child chain st of
        Some (Inr (verdict, st')) \<Rightarrow>
          (case run_children child rest st' of
             Some (verdicts, st'') \<Rightarrow> Some (verdict # verdicts, st'')
           | None \<Rightarrow> None)
      | _ \<Rightarrow> None)"

section \<open>A miniature system for concrete runs\<close>

text \<open>
  A miniature libavb.  The first byte of a VBMeta blob is its flags and an empty blob
  has no valid header; every other blob verifies with the key \<^verbatim>\<open>key\<close>.  The first two
  bytes of a footer are the size and the offset of the blob.  The second byte of a blob
  tells whether a descriptor follows it.  A hashtree descriptor is its tag, the lengths
  of the name, the salt and the digest (one byte each), and then these three; a chain
  descriptor is its tag, the lengths of the name and the key, a byte of padding, and
  then these two; a descriptor with tag 255 is invalid.
\<close>

definition example_avb :: libavb where
  "example_avb =
     \<lparr>sizeof_AvbVBMetaImageHeader = 256,
      sizeof_AvbHashtreeDescriptor = 4,
      sizeof_AvbChainPartitionDescriptor = 4,
      AVB_DESCRIPTOR_TAG_HASHTREE = 1,
      AVB_DESCRIPTOR_TAG_CHAIN_PARTITION = 4,
      AVB_VBMETA_IMAGE_FLAGS_VERIFICATION_DISABLED = 2,
      avb_vbmeta_image_header_to_host_byte_order =
        (\<lambda>data. \<lparr>authentication_data_block_size = 0, auxiliary_data_block_size = 0,
                  rollback_index = 0,
                  flags = (case data of [] \<Rightarrow> 0 | c # _ \<Rightarrow> of_nat (of_char c))\<rparr>),
      avb_footer_validate_and_byteswap =
        (\<lambda>buf. case buf of
                 c # off # _ \<Rightarrow> Some \<lparr>footer_vbmeta_offset = of_nat (of_char off),
                                      footer_vbmeta_size = of_nat (of_char c)\<rparr>
               | _ \<Rightarrow> None),
      avb_vbmeta_image_verify =
        (\<lambda>data size. case data of
                       [] \<Rightarrow> (AVB_VBMETA_VERIFY_RESULT_INVALID_VBMETA_HEADER, None, 0)
                     | _ # _ \<Rightarrow> (AVB_VBMETA_VERIFY_RESULT_OK, Some ''key'', 3)),
      avb_descriptor_get_all =
        (\<lambda>data size. case data of
                       f # n # rest \<Rightarrow> if n = CHR 0x00 then Some [] else Some [rest]
                     | _ \<Rightarrow> None),
      avb_descriptor_validate_and_byteswap =
        (\<lambda>d. case d of
               [] \<Rightarrow> None
             | c # _ \<Rightarrow> if of_char c = (255 :: nat) then None
                        else Some \<lparr>tag = of_nat (of_char c), num_bytes_following = 0\<rparr>),
      avb_hashtree_descriptor_validate_and_byteswap =
        (\<lambda>d. case d of
               t # n # s # g # _ \<Rightarrow>
                 (True,
                  \<lparr>dm_verity_version = 1, image_size = 8192, tree_offset = 8192,
                   data_block_size = 4096, hash_block_size = 4096, fec_num_roots = 0,
                   fec_offset = 0, fec_size = 0, hash_algorithm = ''sha256'',
                   partition_name_len = of_nat (of_char n),
                   salt_len = of_nat (of_char s),
                   root_digest_len = of_nat (of_char g)\<rparr>)
             | _ \<Rightarrow>
                 (False,
                  \<lparr>dm_verity_version = 0, image_size = 0, tree_offset = 0,
                   data_block_size = 0, hash_block_size = 0, fec_num_roots = 0,
                   fec_offset = 0, fec_size = 0, hash_algorithm = [],
                   partition_name_len = 0, salt_len = 0, root_digest_len = 0\<rparr>)),
      avb_chain_partition_descriptor_validate_and_byteswap =
        (\<lambda>d. case d of
               t # n # k # _ # _ \<Rightarrow>
                 Some \<lparr>chain_partition_name_len = of_nat (of_char n),
                       public_key_len = of_nat (of_char k)\<rparr>
             | _ \<Rightarrow> None)\<rparr>"

text \<open>
  A miniature operating system.  The world is the list of the paths that exist, each
  with the content of the file; a descriptor is the content of its file; a table is
  its targets and its read-only flag.  The boot configuration is given as a list of
  keys and values.  The device mapper accepts every device and names its node
  \<^verbatim>\<open>/dev/block/dm-0\<close>, a node that appears only where the world lists it.
\<close>

definition example_sys ::
  "(string \<times> string) list \<Rightarrow> ((string \<times> bytes) list, bytes, DmTargetVerity list \<times> bool) sys" where
  "example_sys cmdline =
     \<lparr>WaitForFile = (\<lambda>path w. map_of w path \<noteq> None),
      open_rdonly = (\<lambda>path w. map_of w path),
      pread64 =
        (\<lambda>fd count offset.
           if offset <s 0 then (- 1, [])
           else let buf = take (unat count) (drop (unat offset) fd)
                in (of_nat (length buf), buf)),
      lseek64 =
        (\<lambda>fd offset wh. case wh of SEEK_END \<Rightarrow> of_nat (length fd) + offset | _ \<Rightarrow> offset),
      fs_mgr_get_boot_config = map_of cmdline,
      BytesToHex = (\<lambda>bs. bs),
      basename = (\<lambda>path. rev (takeWhile (\<lambda>c. c \<noteq> CHR ''/'') (rev path))),
      SetBlockDeviceReadOnly = (\<lambda>dev w. w),
      dm_new_table = ([], False),
      dm_AddTarget = (\<lambda>table target. (True, (fst table @ [target], snd table))),
      dm_valid = (\<lambda>table. fst table \<noteq> []),
      dm_set_readonly = (\<lambda>table ro. (fst table, ro)),
      dm_CreateDevice = (\<lambda>name table w. (True, w)),
      dm_GetDmDevicePathByName = (\<lambda>name w. Some ''/dev/block/dm-0'')\<rparr>"

definition example_descriptor :: AvbHashtreeDescriptor where
  "example_descriptor =
     \<lparr>dm_verity_version = 1, image_size = 4097, tree_offset = 8192,
      data_block_size = 4096, hash_block_size = 4096, fec_num_roots = 2,
      fec_offset = 12288, fec_size = 4096, hash_algorithm = ''sha256'',
      partition_name_len = 6, salt_len = 2, root_digest_len = 2\<rparr>"


text \<open>
  A vendor image: a blob of two bytes with the flag \<^verbatim>\<open>VERIFICATION_DISABLED\<close> set, and
  the footer of 64 bytes that locates it.  A second image whose footer asks for five
  bytes at offset 64, where only two are left.
\<close>

definition example_vendor_image :: bytes where
  "example_vendor_image = [CHR 0x02, CHR 0x00] @ [CHR 0x02, CHR 0x00] @ replicate 62 (CHR 0x00)"

definition example_short_image :: bytes where
  "example_short_image = [CHR 0x00, CHR 0x00] @ [CHR 0x05, CHR 0x40] @ replicate 62 (CHR 0x00)"

definition example_world :: "(string \<times> bytes) list" where
  "example_world =
     [(''/dev/block/by-name/vbmeta'', [CHR 0x00, CHR 0x00]),
      (''/dev/block/by-name/vendor'', example_vendor_image)]"

definition example_path :: "string \<Rightarrow> string" where
  "example_path name = ''/dev/block/by-name/'' @ name"

text \<open>
  A device with two partitions: \<^verbatim>\<open>vbmeta\<close>, whose blob has no flag and one chain
  descriptor for \<^verbatim>\<open>vendor\<close> with the key \<^verbatim>\<open>key\<close>, and a vendor image given as a parameter.
\<close>

definition example_root_image :: bytes where
  "example_root_image =
     [CHR 0x00, CHR 0x01] @ [CHR 0x04, CHR 0x06, CHR 0x03, CHR 0x00] @ ''vendor'' @ ''key''"

definition example_clean_vendor_image :: bytes where
  "example_clean_vendor_image =
     [CHR 0x00, CHR 0x00] @ [CHR 0x02, CHR 0x00] @ replicate 62 (CHR 0x00)"

definition example_device :: "bytes \<Rightarrow> (string \<times> bytes) list" where
  "example_device vendor_image =
     [(''/dev/block/by-name/vbmeta'', example_root_image),
      (''/dev/block/by-name/vendor'', vendor_image)]"

text \<open>
  A device with three partitions.  The blob of \<^verbatim>\<open>vbmeta\<close> has two chain descriptors:
  \<^verbatim>\<open>vendor\<close> with the key \<^verbatim>\<open>kez\<close>, which is not the key the images are signed with, and
  \<^verbatim>\<open>product\<close> with the key \<^verbatim>\<open>key\<close>.  The two images are parameters.
\<close>

definition example_chain_descriptors :: "bytes list" where
  "example_chain_descriptors =
     [[CHR 0x04, CHR 0x06, CHR 0x03, CHR 0x00] @ ''vendor'' @ ''kez'',
      [CHR 0x04, CHR 0x07, CHR 0x03, CHR 0x00] @ ''product'' @ ''key'']"

definition example_avb_two_chains :: libavb where
  "example_avb_two_chains =
     example_avb\<lparr>avb_descriptor_get_all :=
       \<lambda>data size. case data of
                     f # n # rest \<Rightarrow>
                       if n = CHR 0x02 then Some example_chain_descriptors else Some []
                   | _ \<Rightarrow> None\<rparr>"

definition example_two_chain_device :: "bytes \<Rightarrow> bytes \<Rightarrow> (string \<times> bytes) list" where
  "example_two_chain_device vendor_image product_image =
     [(''/dev/block/by-name/vbmeta'', [CHR 0x00, CHR 0x02]),
      (''/dev/block/by-name/vendor'', vendor_image),
      (''/dev/block/by-name/product'', product_image)]"

text \<open>An fstab entry.\<close>

definition example_entry :: FstabEntry where
  "example_entry = \<lparr>blk_device = ''/dev/block/by-name/system'', mount_point = ''/system''\<rparr>"

text \<open>
  Two descriptors, the first invalid and the second the hashtree descriptor of
  \<^verbatim>\<open>system\<close> with a salt and a digest of one byte each; a libavb that finds them in every
  blob; a VBMeta image.
\<close>

definition example_descriptors :: "bytes list" where
  "example_descriptors =
     [[CHR 0xFF],
      [CHR 0x01, CHR 0x06, CHR 0x01, CHR 0x01] @ ''system'' @ ''SD'']"

definition example_avb_with_descriptors :: libavb where
  "example_avb_with_descriptors =
     example_avb\<lparr>avb_descriptor_get_all := \<lambda>data size. Some example_descriptors\<rparr>"

definition example_vbmeta :: VBMetaData where
  "example_vbmeta = \<lparr>vbmeta_ptr = [CHR 0x00, CHR 0x00], vbmeta_size = 256, partition = ''vbmeta''\<rparr>"

section \<open>Properties\<close>

subsection \<open>A/B names with empty suffixes\<close>

lemma rfind_from_None:
  "rfind_from s pat i = None \<longleftrightarrow> (\<forall>j\<le>i. take (length pat) (drop j s) \<noteq> pat)"
proof (induction i)
  case 0
  show ?case by simp
next
  case (Suc i)
  show ?case using Suc.IH by (auto simp: le_Suc_eq)
qed

lemma rfind_from_Some:
  "rfind_from s pat i = Some p \<Longrightarrow>
     p \<le> i \<and> take (length pat) (drop p s) = pat \<and>
     (\<forall>j. p < j \<and> j \<le> i \<longrightarrow> take (length pat) (drop j s) \<noteq> pat)"
proof (induction i)
  case 0
  then show ?case by (simp split: if_splits)
next
  case (Suc i)
  show ?case
  proof (cases "take (length pat) (drop (Suc i) s) = pat")
    case True
    with Suc.prems show ?thesis by auto
  next
    case False
    with Suc.prems have "rfind_from s pat i = Some p" by simp
    from Suc.IH [OF this] False show ?thesis by (auto simp: le_Suc_eq)
  qed
qed

lemma occurs_at_bound: "occurs_at s pat i \<Longrightarrow> length pat \<le> length s \<and> i \<le> length s - length pat"
  by (auto simp: occurs_at_def)

lemma take_drop_occurs:
  "length pat \<le> length s \<Longrightarrow> j \<le> length s - length pat \<Longrightarrow>
   occurs_at s pat j = (take (length pat) (drop j s) = pat)"
  by (auto simp: occurs_at_def)

lemma rfind_None: "rfind s pat = None \<longleftrightarrow> (\<forall>i. \<not> occurs_at s pat i)"
proof (cases "length s < length pat")
  case True
  then show ?thesis by (auto simp: rfind_def occurs_at_def)
next
  case False
  then have le: "length pat \<le> length s" by simp
  show ?thesis
  proof
    assume "rfind s pat = None"
    with False have "\<forall>j\<le>length s - length pat. take (length pat) (drop j s) \<noteq> pat"
      by (simp add: rfind_def rfind_from_None)
    then show "\<forall>i. \<not> occurs_at s pat i"
      using occurs_at_bound take_drop_occurs le by blast
  next
    assume "\<forall>i. \<not> occurs_at s pat i"
    then have "\<forall>j\<le>length s - length pat. take (length pat) (drop j s) \<noteq> pat"
      using take_drop_occurs le by blast
    with False show "rfind s pat = None"
      by (simp add: rfind_def rfind_from_None)
  qed
qed

lemma rfind_Some:
  assumes "rfind s pat = Some p"
  shows "occurs_at s pat p" and "occurs_at s pat j \<Longrightarrow> j \<le> p"
proof -
  from assms have le: "length pat \<le> length s"
    by (auto simp: rfind_def split: if_splits)
  with assms have r: "rfind_from s pat (length s - length pat) = Some p"
    by (simp add: rfind_def)
  note f = rfind_from_Some [OF r]
  from f le show "occurs_at s pat p" by (simp add: take_drop_occurs)
  show "j \<le> p" if "occurs_at s pat j"
  proof (rule ccontr)
    assume "\<not> j \<le> p"
    then have "p < j" by simp
    moreover from that have "j \<le> length s - length pat" using occurs_at_bound by blast
    ultimately have "take (length pat) (drop j s) \<noteq> pat" using f by blast
    with that show False by (simp add: occurs_at_def)
  qed
qed

lemma rfind_last:
  assumes "occurs_at s pat p" and "\<forall>j. occurs_at s pat j \<longrightarrow> j \<le> p"
  shows "rfind s pat = Some p"
proof (cases "rfind s pat")
  case None
  with assms(1) show ?thesis by (simp add: rfind_None)
next
  case (Some q)
  from rfind_Some [OF Some] assms have "q \<le> p" "p \<le> q" by blast+
  with Some show ?thesis by simp
qed

text \<open>
  Claim C3, as amended.  With both suffixes empty, \<^verbatim>\<open>AvbPartitionToDevicePatition\<close>
  returns its argument unchanged exactly when \<^verbatim>\<open>_other\<close> does not occur in it; when it
  occurs, the result is the argument cut at the last occurrence.
\<close>

theorem AvbPartitionToDevicePatition_empty_suffixes:
  "(AvbPartitionToDevicePatition x '''' '''' = x \<longleftrightarrow> (\<forall>i. \<not> occurs_at x ''_other'' i)) \<and>
   (\<forall>p. occurs_at x ''_other'' p \<and> (\<forall>j. occurs_at x ''_other'' j \<longrightarrow> j \<le> p) \<longrightarrow>
        AvbPartitionToDevicePatition x '''' '''' = take p x)"
proof (intro conjI allI impI)
  show "AvbPartitionToDevicePatition x '''' '''' = x \<longleftrightarrow> (\<forall>i. \<not> occurs_at x ''_other'' i)"
  proof (cases "rfind x ''_other''")
    case None
    then show ?thesis by (simp add: AvbPartitionToDevicePatition_def rfind_None [symmetric])
  next
    case (Some p)
    from rfind_Some(1) [OF Some] have "p + 6 \<le> length x" by (simp add: occurs_at_def)
    then have "take p x \<noteq> x" by (auto dest: arg_cong [where f=length])
    moreover from Some have "\<not> (\<forall>i. \<not> occurs_at x ''_other'' i)"
      using rfind_None [of x "''_other''"] by simp
    ultimately show ?thesis using Some by (simp add: AvbPartitionToDevicePatition_def)
  qed
next
  fix p
  assume "occurs_at x ''_other'' p \<and> (\<forall>j. occurs_at x ''_other'' j \<longrightarrow> j \<le> p)"
  then have "rfind x ''_other'' = Some p" by (simp add: rfind_last)
  then show "AvbPartitionToDevicePatition x '''' '''' = take p x"
    by (simp add: AvbPartitionToDevicePatition_def)
qed

text \<open>
  The name \<^verbatim>\<open>system_other\<close> is not returned unchanged: as the comment above the function
  says, on a device without slots it becomes \<^verbatim>\<open>system\<close>.
\<close>

theorem AvbPartitionToDevicePatition_identity_counterexample:
  "AvbPartitionToDevicePatition ''system_other'' '''' '''' \<noteq> ''system_other''"
  by (simp add: AvbPartitionToDevicePatition_def rfind_def)

text \<open>The amended statement at \<^verbatim>\<open>vendor\<close> and at \<^verbatim>\<open>system_other\<close>.\<close>

theorem AvbPartitionToDevicePatition_empty_suffixes_witness:
  "AvbPartitionToDevicePatition ''vendor'' '''' '''' = ''vendor'' \<and>
   occurs_at ''system_other'' ''_other'' 6 \<and>
   AvbPartitionToDevicePatition ''system_other'' '''' '''' = ''system''"
proof -
  have a: "\<forall>i. \<not> occurs_at ''vendor'' ''_other'' i"
    by (auto simp: occurs_at_def)
  have b: "occurs_at ''system_other'' ''_other'' 6"
    by (simp add: occurs_at_def)
  have c: "\<forall>j. occurs_at ''system_other'' ''_other'' j \<longrightarrow> j \<le> 6"
    by (simp add: occurs_at_def)
  from AvbPartitionToDevicePatition_empty_suffixes [of "''vendor''"] a
  have "AvbPartitionToDevicePatition ''vendor'' '''' '''' = ''vendor''" by blast
  moreover from AvbPartitionToDevicePatition_empty_suffixes [of "''system_other''"] b c
  have "AvbPartitionToDevicePatition ''system_other'' '''' '''' = take 6 ''system_other''" by blast
  ultimately show ?thesis using b by simp
qed

subsection \<open>The verdict of the signature check\<close>

text \<open>
  Claim C1.  Let libavb return the verdict \<open>ret\<close>, the key pointer \<open>pk_data\<close> and the key
  length \<open>pk_len\<close>; the recovered key is the first \<open>pk_len\<close> bytes at \<open>pk_data\<close>.  With a
  key recovered (a pointer that is not null, a positive length), \<^verbatim>\<open>OK\<close> gives
  \<open>kSuccess\<close> when the expected key is empty or equal to the recovered one, and
  \<open>kErrorVerification\<close> when the expected key is not empty and differs from it in
  length or content.  \<^verbatim>\<open>OK_NOT_SIGNED\<close>, \<^verbatim>\<open>HASH_MISMATCH\<close> and \<^verbatim>\<open>SIGNATURE_MISMATCH\<close> give
  \<open>kErrorVerification\<close>; \<^verbatim>\<open>INVALID_VBMETA_HEADER\<close>, \<^verbatim>\<open>UNSUPPORTED_VERSION\<close> and every unknown
  verdict give \<open>kError\<close>; and \<^verbatim>\<open>OK\<close> with a null key pointer or a key length that is not
  positive gives \<open>kError\<close>.
\<close>

theorem VerifyVBMetaSignature_verdicts:
  assumes "avb_vbmeta_image_verify avb (vbmeta_ptr vbmeta) (vbmeta_size vbmeta) =
             (ret, pk_data, pk_len)"
  shows
    "(ret = AVB_VBMETA_VERIFY_RESULT_OK \<and> pk_data = Some key \<and> 0 < pk_len \<and> expected = [] \<longrightarrow>
        VerifyVBMetaSignature avb vbmeta expected = kSuccess) \<and>
     (ret = AVB_VBMETA_VERIFY_RESULT_OK \<and> pk_data = Some key \<and> 0 < pk_len \<and> expected \<noteq> [] \<and>
        unat pk_len = length expected \<and> take (unat pk_len) key = expected \<longrightarrow>
        VerifyVBMetaSignature avb vbmeta expected = kSuccess) \<and>
     (ret = AVB_VBMETA_VERIFY_RESULT_OK \<and> pk_data = Some key \<and> 0 < pk_len \<and> expected \<noteq> [] \<and>
        (unat pk_len \<noteq> length expected \<or> take (unat pk_len) key \<noteq> expected) \<longrightarrow>
        VerifyVBMetaSignature avb vbmeta expected = kErrorVerification) \<and>
     (ret \<in> {AVB_VBMETA_VERIFY_RESULT_OK_NOT_SIGNED, AVB_VBMETA_VERIFY_RESULT_HASH_MISMATCH,
              AVB_VBMETA_VERIFY_RESULT_SIGNATURE_MISMATCH} \<longrightarrow>
        VerifyVBMetaSignature avb vbmeta expected = kErrorVerification) \<and>
     (ret \<in> {AVB_VBMETA_VERIFY_RESULT_INVALID_VBMETA_HEADER,
              AVB_VBMETA_VERIFY_RESULT_UNSUPPORTED_VERSION,
              AVB_VBMETA_VERIFY_RESULT_unknown v} \<longrightarrow>
        VerifyVBMetaSignature avb vbmeta expected = kError) \<and>
     (ret = AVB_VBMETA_VERIFY_RESULT_OK \<and> (pk_data = None \<or> pk_len \<le> 0) \<longrightarrow>
        VerifyVBMetaSignature avb vbmeta expected = kError)"
proof -
  have pos: "0 < pk_len \<Longrightarrow> \<not> pk_len \<le> 0"
    by (simp add: word_gt_0)
  have key_eq: "unat pk_len = length expected \<Longrightarrow>
      (take (unat pk_len) key = take (unat pk_len) expected) = (take (unat pk_len) key = expected)"
    by simp
  show ?thesis
    using pos key_eq
    by (auto simp: VerifyVBMetaSignature_def VerifyPublicKeyBlob_def assms
             split: option.splits)
qed

text \<open>
  Each case on the miniature libavb: no expected key, the right key, a key of the right
  length with another content, a longer key, a hash mismatch, an invalid header, a key
  of length zero, and a null key pointer.
\<close>

theorem VerifyVBMetaSignature_verdicts_witness:
  "VerifyVBMetaSignature example_avb
     \<lparr>vbmeta_ptr = ''x'', vbmeta_size = 1, partition = ''vbmeta''\<rparr> [] = kSuccess \<and>
   VerifyVBMetaSignature example_avb
     \<lparr>vbmeta_ptr = ''x'', vbmeta_size = 1, partition = ''vbmeta''\<rparr> ''key'' = kSuccess \<and>
   VerifyVBMetaSignature example_avb
     \<lparr>vbmeta_ptr = ''x'', vbmeta_size = 1, partition = ''vbmeta''\<rparr> ''kez'' = kErrorVerification \<and>
   VerifyVBMetaSignature example_avb
     \<lparr>vbmeta_ptr = ''x'', vbmeta_size = 1, partition = ''vbmeta''\<rparr> ''keys'' = kErrorVerification \<and>
   VerifyVBMetaSignature
     (example_avb\<lparr>avb_vbmeta_image_verify :=
        \<lambda>data size. (AVB_VBMETA_VERIFY_RESULT_HASH_MISMATCH, None, 0)\<rparr>)
     \<lparr>vbmeta_ptr = ''x'', vbmeta_size = 1, partition = ''vbmeta''\<rparr> [] = kErrorVerification \<and>
   VerifyVBMetaSignature example_avb
     \<lparr>vbmeta_ptr = [], vbmeta_size = 0, partition = ''vbmeta''\<rparr> [] = kError \<and>
   VerifyVBMetaSignature
     (example_avb\<lparr>avb_vbmeta_image_verify :=
        \<lambda>data size. (AVB_VBMETA_VERIFY_RESULT_OK, Some ''key'', 0)\<rparr>)
     \<lparr>vbmeta_ptr = ''x'', vbmeta_size = 1, partition = ''vbmeta''\<rparr> [] = kError \<and>
   VerifyVBMetaSignature
     (example_avb\<lparr>avb_vbmeta_image_verify :=
        \<lambda>data size. (AVB_VBMETA_VERIFY_RESULT_OK, None, 3)\<rparr>)
     \<lparr>vbmeta_ptr = ''x'', vbmeta_size = 1, partition = ''vbmeta''\<rparr> [] = kError"
proof -
  let ?v = "\<lparr>vbmeta_ptr = ''x'', vbmeta_size = 1, partition = ''vbmeta''\<rparr>"
  let ?e = "\<lparr>vbmeta_ptr = [], vbmeta_size = 0, partition = ''vbmeta''\<rparr>"
  let ?mismatch = "example_avb\<lparr>avb_vbmeta_image_verify :=
        \<lambda>data size. (AVB_VBMETA_VERIFY_RESULT_HASH_MISMATCH, None, 0)\<rparr>"
  let ?nokey = "example_avb\<lparr>avb_vbmeta_image_verify :=
        \<lambda>data size. (AVB_VBMETA_VERIFY_RESULT_OK, Some ''key'', 0)\<rparr>"
  let ?null = "example_avb\<lparr>avb_vbmeta_image_verify :=
        \<lambda>data size. (AVB_VBMETA_VERIFY_RESULT_OK, None, 3)\<rparr>"
  have nul: "avb_vbmeta_image_verify ?null (vbmeta_ptr ?v) (vbmeta_size ?v) =
      (AVB_VBMETA_VERIFY_RESULT_OK, None, 3)"
    by simp
  have ok: "avb_vbmeta_image_verify example_avb (vbmeta_ptr ?v) (vbmeta_size ?v) =
      (AVB_VBMETA_VERIFY_RESULT_OK, Some ''key'', 3)"
    by (simp add: example_avb_def)
  have bad: "avb_vbmeta_image_verify example_avb (vbmeta_ptr ?e) (vbmeta_size ?e) =
      (AVB_VBMETA_VERIFY_RESULT_INVALID_VBMETA_HEADER, None, 0)"
    by (simp add: example_avb_def)
  have mis: "avb_vbmeta_image_verify ?mismatch (vbmeta_ptr ?v) (vbmeta_size ?v) =
      (AVB_VBMETA_VERIFY_RESULT_HASH_MISMATCH, None, 0)"
    by simp
  have nok: "avb_vbmeta_image_verify ?nokey (vbmeta_ptr ?v) (vbmeta_size ?v) =
      (AVB_VBMETA_VERIFY_RESULT_OK, Some ''key'', 0)"
    by simp
  have c1: "VerifyVBMetaSignature example_avb ?v [] = kSuccess"
    using VerifyVBMetaSignature_verdicts [OF ok, where key = "''key''" and expected = "[]"]
    by simp
  have c2: "VerifyVBMetaSignature example_avb ?v ''key'' = kSuccess"
    using VerifyVBMetaSignature_verdicts [OF ok, where key = "''key''" and expected = "''key''"]
    by simp
  have c3: "VerifyVBMetaSignature example_avb ?v ''kez'' = kErrorVerification"
    using VerifyVBMetaSignature_verdicts [OF ok, where key = "''key''" and expected = "''kez''"]
    by simp
  have c4: "VerifyVBMetaSignature example_avb ?v ''keys'' = kErrorVerification"
    using VerifyVBMetaSignature_verdicts [OF ok, where key = "''key''" and expected = "''keys''"]
    by simp
  have c5: "VerifyVBMetaSignature ?mismatch ?v [] = kErrorVerification"
    using VerifyVBMetaSignature_verdicts [OF mis, where expected = "[]"]
    by simp
  have c6: "VerifyVBMetaSignature example_avb ?e [] = kError"
    using VerifyVBMetaSignature_verdicts [OF bad, where expected = "[]"]
    by simp
  have c7: "VerifyVBMetaSignature ?nokey ?v [] = kError"
    using VerifyVBMetaSignature_verdicts [OF nok, where expected = "[]"]
    by simp
  have c8: "VerifyVBMetaSignature ?null ?v [] = kError"
    using VerifyVBMetaSignature_verdicts [OF nul, where expected = "[]"]
    by simp
  from c1 c2 c3 c4 c5 c6 c7 c8 show ?thesis by simp
qed

subsection \<open>Where the VBMeta blob is read\<close>

lemma small_not_negative:
  fixes n :: uint64_t
  assumes "n \<le> kMaxVBMetaSize"
  shows "\<not> n <s 0"
proof -
  from assms have "uint n \<le> 65536"
    by (simp add: kMaxVBMetaSize_def word_le_def)
  then have "uint n < 2 ^ 63" by simp
  moreover have "- (2 ^ 63) \<le> uint n"
    by (rule order_trans [of _ 0]) simp_all
  ultimately have "signed_take_bit 63 (uint n) = uint n"
    by (intro signed_take_bit_int_eq_self)
  then have "sint n = uint n"
    by (simp add: sint_uint)
  then show ?thesis
    by (simp add: word_sless_alt)
qed

text \<open>
  Claim C4.  The maximum is 64 KiB.  For a partition whose name begins with
  \<^verbatim>\<open>vbmeta\<close>, \<^verbatim>\<open>VerifyVBMetaData\<close> reads at offset 0 with the maximum as size, and goes on
  to the signature with whatever number of bytes the read returned, unless that number
  is negative.  For every other partition it returns a null pointer when there is no
  footer or when the \<open>vbmeta_size\<close> of the footer exceeds the maximum; otherwise it reads
  at the \<open>vbmeta_offset\<close> of the footer with its \<open>vbmeta_size\<close>, and returns a null pointer
  unless the read returned exactly \<open>vbmeta_size\<close> bytes.
\<close>

theorem VerifyVBMetaData_read:
  "kMaxVBMetaSize = 65536 \<and>
   (StartsWith partition_name ''vbmeta'' \<longrightarrow>
      VerifyVBMetaData avb os fd partition_name expected =
        (case pread64 os fd kMaxVBMetaSize 0 of
           (num_read, buf) \<Rightarrow>
             if num_read <s 0 then None
             else
               let vbmeta = \<lparr>vbmeta_ptr = buf, vbmeta_size = kMaxVBMetaSize,
                             partition = partition_name\<rparr>;
                   verify_result = VerifyVBMetaSignature avb vbmeta expected
               in Some (verify_result,
                        if verify_result = kError then None else Some vbmeta))) \<and>
   (\<not> StartsWith partition_name ''vbmeta'' \<and> GetAvbFooter avb os fd = None \<longrightarrow>
      VerifyVBMetaData avb os fd partition_name expected = None) \<and>
   (\<not> StartsWith partition_name ''vbmeta'' \<and> GetAvbFooter avb os fd = Some footer \<and>
    kMaxVBMetaSize < footer_vbmeta_size footer \<longrightarrow>
      VerifyVBMetaData avb os fd partition_name expected = None) \<and>
   (\<not> StartsWith partition_name ''vbmeta'' \<and> GetAvbFooter avb os fd = Some footer \<and>
    footer_vbmeta_size footer \<le> kMaxVBMetaSize \<longrightarrow>
      VerifyVBMetaData avb os fd partition_name expected =
        (case pread64 os fd (footer_vbmeta_size footer) (footer_vbmeta_offset footer) of
           (num_read, buf) \<Rightarrow>
             if num_read \<noteq> footer_vbmeta_size footer then None
             else
               let vbmeta = \<lparr>vbmeta_ptr = buf, vbmeta_size = footer_vbmeta_size footer,
                             partition = partition_name\<rparr>;
                   verify_result = VerifyVBMetaSignature avb vbmeta expected
               in Some (verify_result,
                        if verify_result = kError then None else Some vbmeta)))"
proof (intro conjI impI)
  show "kMaxVBMetaSize = 65536" by (simp add: kMaxVBMetaSize_def)
next
  assume "StartsWith partition_name ''vbmeta''"
  then show "VerifyVBMetaData avb os fd partition_name expected =
        (case pread64 os fd kMaxVBMetaSize 0 of
           (num_read, buf) \<Rightarrow>
             if num_read <s 0 then None
             else
               let vbmeta = \<lparr>vbmeta_ptr = buf, vbmeta_size = kMaxVBMetaSize,
                             partition = partition_name\<rparr>;
                   verify_result = VerifyVBMetaSignature avb vbmeta expected
               in Some (verify_result,
                        if verify_result = kError then None else Some vbmeta))"
    by (cases "pread64 os fd kMaxVBMetaSize 0";
        cases "VerifyVBMetaSignature avb \<lparr>vbmeta_ptr = snd (pread64 os fd kMaxVBMetaSize 0),
          vbmeta_size = kMaxVBMetaSize, partition = partition_name\<rparr> expected")
       (simp_all add: VerifyVBMetaData_def Let_def kMaxVBMetaSize_def)
next
  assume "\<not> StartsWith partition_name ''vbmeta'' \<and> GetAvbFooter avb os fd = None"
  then show "VerifyVBMetaData avb os fd partition_name expected = None"
    by (simp add: VerifyVBMetaData_def)
next
  assume "\<not> StartsWith partition_name ''vbmeta'' \<and> GetAvbFooter avb os fd = Some footer \<and>
    kMaxVBMetaSize < footer_vbmeta_size footer"
  then show "VerifyVBMetaData avb os fd partition_name expected = None"
    by (simp add: VerifyVBMetaData_def)
next
  assume a: "\<not> StartsWith partition_name ''vbmeta'' \<and> GetAvbFooter avb os fd = Some footer \<and>
    footer_vbmeta_size footer \<le> kMaxVBMetaSize"
  then have le: "\<not> kMaxVBMetaSize < footer_vbmeta_size footer" using leD by blast
  from a have neg: "\<not> footer_vbmeta_size footer <s 0" using small_not_negative by blast
  obtain num_read buf where r:
    "pread64 os fd (footer_vbmeta_size footer) (footer_vbmeta_offset footer) = (num_read, buf)"
    by (cases "pread64 os fd (footer_vbmeta_size footer) (footer_vbmeta_offset footer)")
  have c: "(num_read <s 0 \<or> num_read \<noteq> footer_vbmeta_size footer) =
      (num_read \<noteq> footer_vbmeta_size footer)"
    using neg by auto
  show "VerifyVBMetaData avb os fd partition_name expected =
        (case pread64 os fd (footer_vbmeta_size footer) (footer_vbmeta_offset footer) of
           (num_read, buf) \<Rightarrow>
             if num_read \<noteq> footer_vbmeta_size footer then None
             else
               let vbmeta = \<lparr>vbmeta_ptr = buf, vbmeta_size = footer_vbmeta_size footer,
                             partition = partition_name\<rparr>;
                   verify_result = VerifyVBMetaSignature avb vbmeta expected
               in Some (verify_result,
                        if verify_result = kError then None else Some vbmeta))"
    using a le r c
    by (cases "VerifyVBMetaSignature avb \<lparr>vbmeta_ptr = buf,
          vbmeta_size = footer_vbmeta_size footer, partition = partition_name\<rparr> expected")
       (simp_all add: VerifyVBMetaData_def Let_def)
qed

text \<open>
  On the miniature system: a \<^verbatim>\<open>vbmeta\<close> partition of two bytes (a partial read), a
  partition too short for a footer, a footer that declares more than the maximum, the
  vendor image, and the image whose read comes back short.
\<close>

theorem VerifyVBMetaData_read_witness:
  "VerifyVBMetaData example_avb (example_sys []) [CHR 0x00, CHR 0x00] ''vbmeta'' [] =
     Some (kSuccess, Some \<lparr>vbmeta_ptr = [CHR 0x00, CHR 0x00], vbmeta_size = 65536,
                            partition = ''vbmeta''\<rparr>) \<and>
   VerifyVBMetaData example_avb (example_sys []) [CHR 0x00, CHR 0x00] ''vendor'' [] = None \<and>
   VerifyVBMetaData
     (example_avb\<lparr>avb_footer_validate_and_byteswap :=
        \<lambda>buf. Some \<lparr>footer_vbmeta_offset = 0, footer_vbmeta_size = 65537\<rparr>\<rparr>)
     (example_sys []) example_vendor_image ''vendor'' [] = None \<and>
   VerifyVBMetaData example_avb (example_sys []) example_vendor_image ''vendor'' [] =
     Some (kSuccess, Some \<lparr>vbmeta_ptr = [CHR 0x02, CHR 0x00], vbmeta_size = 2,
                            partition = ''vendor''\<rparr>) \<and>
   VerifyVBMetaData example_avb (example_sys []) example_short_image ''vendor'' [] = None"
proof -
  let ?big = "example_avb\<lparr>avb_footer_validate_and_byteswap :=
        \<lambda>buf. Some \<lparr>footer_vbmeta_offset = 0, footer_vbmeta_size = 65537\<rparr>\<rparr>"
  have n1: "StartsWith ''vbmeta'' ''vbmeta''" and n2: "\<not> StartsWith ''vendor'' ''vbmeta''"
    by (simp_all add: StartsWith_def)
  have f0: "GetAvbFooter example_avb (example_sys []) [CHR 0x00, CHR 0x00] = None"
    by (simp add: GetAvbFooter_def GetTotalSize_def example_avb_def example_sys_def
          AVB_FOOTER_SIZE_def word_sless_alt)
  have f1: "GetAvbFooter example_avb (example_sys []) example_vendor_image =
      Some \<lparr>footer_vbmeta_offset = 0, footer_vbmeta_size = 2\<rparr>"
    by (simp add: GetAvbFooter_def GetTotalSize_def example_avb_def example_sys_def
          example_vendor_image_def AVB_FOOTER_SIZE_def word_sless_alt)
  have f2: "GetAvbFooter example_avb (example_sys []) example_short_image =
      Some \<lparr>footer_vbmeta_offset = 64, footer_vbmeta_size = 5\<rparr>"
    by (simp add: GetAvbFooter_def GetTotalSize_def example_avb_def example_sys_def
          example_short_image_def AVB_FOOTER_SIZE_def word_sless_alt)
  have f3: "GetAvbFooter ?big (example_sys []) example_vendor_image =
      Some \<lparr>footer_vbmeta_offset = 0, footer_vbmeta_size = 65537\<rparr>"
    by (simp add: GetAvbFooter_def GetTotalSize_def example_sys_def
          example_vendor_image_def AVB_FOOTER_SIZE_def word_sless_alt)
  have p0: "pread64 (example_sys []) [CHR 0x00, CHR 0x00] kMaxVBMetaSize 0 =
      (2, [CHR 0x00, CHR 0x00])"
    by (simp add: example_sys_def kMaxVBMetaSize_def word_sless_alt)
  have p1: "pread64 (example_sys []) example_vendor_image 2 0 = (2, [CHR 0x02, CHR 0x00])"
    by (simp add: example_sys_def example_vendor_image_def word_sless_alt)
  have r2: "replicate 2 c = [c, c]" for c :: char
    by (simp add: numeral_2_eq_2)
  have p2: "pread64 (example_sys []) example_short_image 5 64 = (2, [CHR 0x00, CHR 0x00])"
    by (simp add: example_sys_def example_short_image_def word_sless_alt r2)
  have s: "VerifyVBMetaSignature example_avb
      \<lparr>vbmeta_ptr = c # cs, vbmeta_size = n, partition = p\<rparr> [] = kSuccess" for c cs n p
    by (simp add: VerifyVBMetaSignature_def VerifyPublicKeyBlob_def example_avb_def)
  have k: "kMaxVBMetaSize = 65536" by (simp add: kMaxVBMetaSize_def)
  have w1: "VerifyVBMetaData example_avb (example_sys []) [CHR 0x00, CHR 0x00] ''vbmeta'' [] =
      Some (kSuccess, Some \<lparr>vbmeta_ptr = [CHR 0x00, CHR 0x00], vbmeta_size = 65536,
                             partition = ''vbmeta''\<rparr>)"
    using VerifyVBMetaData_read [where partition_name = "''vbmeta''" and avb = example_avb
        and os = "example_sys []" and fd = "[CHR 0x00, CHR 0x00]" and expected = "[]"]
      n1 p0 s
    by (simp add: word_sless_alt k)
  have w2: "VerifyVBMetaData example_avb (example_sys []) [CHR 0x00, CHR 0x00] ''vendor'' [] = None"
    using VerifyVBMetaData_read [where partition_name = "''vendor''" and avb = example_avb
        and os = "example_sys []" and fd = "[CHR 0x00, CHR 0x00]" and expected = "[]"]
      n2 f0
    by simp
  have w3: "VerifyVBMetaData ?big (example_sys []) example_vendor_image ''vendor'' [] = None"
    using VerifyVBMetaData_read [where partition_name = "''vendor''" and avb = ?big
        and os = "example_sys []" and fd = example_vendor_image and expected = "[]"
        and footer = "\<lparr>footer_vbmeta_offset = 0, footer_vbmeta_size = 65537\<rparr>"]
      n2 f3
    by (simp add: k)
  have w4: "VerifyVBMetaData example_avb (example_sys []) example_vendor_image ''vendor'' [] =
      Some (kSuccess, Some \<lparr>vbmeta_ptr = [CHR 0x02, CHR 0x00], vbmeta_size = 2,
                             partition = ''vendor''\<rparr>)"
    using VerifyVBMetaData_read [where partition_name = "''vendor''" and avb = example_avb
        and os = "example_sys []" and fd = example_vendor_image and expected = "[]"
        and footer = "\<lparr>footer_vbmeta_offset = 0, footer_vbmeta_size = 2\<rparr>"]
      n2 f1 p1 s
    by (simp add: k)
  have w5: "VerifyVBMetaData example_avb (example_sys []) example_short_image ''vendor'' [] = None"
    using VerifyVBMetaData_read [where partition_name = "''vendor''" and avb = example_avb
        and os = "example_sys []" and fd = example_short_image and expected = "[]"
        and footer = "\<lparr>footer_vbmeta_offset = 64, footer_vbmeta_size = 5\<rparr>"]
      n2 f2 p2
    by (simp add: k)
  from w1 w2 w3 w4 w5 show ?thesis by simp
qed

subsection \<open>The flag VERIFICATION_DISABLED\<close>

lemma flag_set_nonzero:
  fixes f :: uint32_t
  assumes "f AND b \<noteq> 0"
  shows "f \<noteq> 0"
  using assms by auto

lemma example_vendor_path:
  "example_path (AvbPartitionToDevicePatition ''vendor'' [] []) = ''/dev/block/by-name/vendor''"
  by (simp add: example_path_def AvbPartitionToDevicePatition_def rfind_def)

lemma example_vendor_open:
  "WaitForFile (example_sys []) ''/dev/block/by-name/vendor'' example_world"
  "open_rdonly (example_sys []) ''/dev/block/by-name/vendor'' example_world =
     Some example_vendor_image"
  by (simp_all add: example_sys_def example_world_def)

lemma example_vendor_footer:
  "GetAvbFooter example_avb (example_sys []) example_vendor_image =
     Some \<lparr>footer_vbmeta_offset = 0, footer_vbmeta_size = 2\<rparr>"
  by (simp add: GetAvbFooter_def GetTotalSize_def example_avb_def example_sys_def
        example_vendor_image_def AVB_FOOTER_SIZE_def word_sless_alt)

lemma example_vendor_read:
  "pread64 (example_sys []) example_vendor_image 2 0 = (2, [CHR 0x02, CHR 0x00])"
  by (simp add: example_sys_def example_vendor_image_def word_sless_alt)

lemma example_vendor_signature:
  "VerifyVBMetaSignature example_avb
     \<lparr>vbmeta_ptr = [CHR 0x02, CHR 0x00], vbmeta_size = 2, partition = ''vendor''\<rparr> ''key'' =
     kSuccess"
  by (simp add: VerifyVBMetaSignature_def VerifyPublicKeyBlob_def example_avb_def)

lemma example_vendor_loaded:
  "VerifyVBMetaData example_avb (example_sys []) example_vendor_image ''vendor'' ''key'' =
     Some (kSuccess,
           Some \<lparr>vbmeta_ptr = [CHR 0x02, CHR 0x00], vbmeta_size = 2, partition = ''vendor''\<rparr>)"
  by (simp add: VerifyVBMetaData_def StartsWith_def example_vendor_footer example_vendor_read
        example_vendor_signature kMaxVBMetaSize_def word_sless_alt)

lemma example_vendor_flags:
  "flags (avb_vbmeta_image_header_to_host_byte_order example_avb [CHR 0x02, CHR 0x00]) = 2"
  "AVB_VBMETA_IMAGE_FLAGS_VERIFICATION_DISABLED example_avb = 2"
  by (simp_all add: example_avb_def)

lemma example_vendor_resigned_signature:
  "VerifyVBMetaSignature example_avb
     \<lparr>vbmeta_ptr = [CHR 0x02, CHR 0x00], vbmeta_size = 2, partition = ''vendor''\<rparr> ''kez'' =
     kErrorVerification"
  by (simp add: VerifyVBMetaSignature_def VerifyPublicKeyBlob_def example_avb_def)

lemma example_vendor_resigned_loaded:
  "VerifyVBMetaData example_avb (example_sys []) example_vendor_image ''vendor'' ''kez'' =
     Some (kErrorVerification,
           Some \<lparr>vbmeta_ptr = [CHR 0x02, CHR 0x00], vbmeta_size = 2, partition = ''vendor''\<rparr>)"
  by (simp add: VerifyVBMetaData_def StartsWith_def example_vendor_footer example_vendor_read
        example_vendor_resigned_signature kMaxVBMetaSize_def word_sless_alt)

text \<open>
  Claim C2, as amended.  Let the device path appear and open, and let the VBMeta load,
  its header carrying the flag \<^verbatim>\<open>VERIFICATION_DISABLED\<close>.  If the verdict of the image is
  \<open>kErrorVerification\<close> and \<^verbatim>\<open>allow_verification_error\<close> is false,
  \<^verbatim>\<open>LoadAndVerifyVbmetaImpl\<close> logs that a verification error is not allowed and returns
  \<open>kError\<close>, chained or not.  Otherwise, for a chained partition (\<^verbatim>\<open>is_chained_vbmeta\<close>
  true) it logs that a chained vbmeta image has non-zero flags and returns \<open>kError\<close>: it
  appends no image, logs no warning and does not recurse.  Otherwise, for the top-level
  image (\<^verbatim>\<open>is_chained_vbmeta\<close> false), it appends the image, logs the warning and returns
  the verdict of the image, \<open>kSuccess\<close> for a verified one, without looking at the chain
  descriptors.  All this holds with any fuel, so no recursive call is made.
\<close>

theorem LoadAndVerifyVbmetaImpl_verification_disabled:
  assumes "WaitForFile os
             (device_path_constructor
                (AvbPartitionToDevicePatition partition_name ab_suffix ab_other_suffix)) w"
    and "open_rdonly os
           (device_path_constructor
              (AvbPartitionToDevicePatition partition_name ab_suffix ab_other_suffix)) w = Some fd"
    and "VerifyVBMetaData avb os fd partition_name expected = Some (verify_result, Some vbmeta)"
    and "flags (avb_vbmeta_image_header_to_host_byte_order avb (vbmeta_ptr vbmeta)) AND
           AVB_VBMETA_IMAGE_FLAGS_VERIFICATION_DISABLED avb \<noteq> 0"
  shows
    "LoadAndVerifyVbmetaImpl (Suc fuel) avb os w partition_name ab_suffix ab_other_suffix expected
       allow_verification_error load_chained_vbmeta rollback_protection device_path_constructor
       is_chained_vbmeta st =
       Some (Inr
         (if \<not> allow_verification_error \<and> verify_result = kErrorVerification
          then (kError, emit (LERROR_verification_error_not_allowed partition_name) st)
          else if is_chained_vbmeta
          then (kError, emit (LERROR_chained_vbmeta_has_flags partition_name) st)
          else (verify_result,
                emit (LWARNING_verification_disabled partition_name)
                  (case out_vbmeta_images st of
                     None \<Rightarrow> st
                   | Some images \<Rightarrow>
                       st\<lparr>out_vbmeta_images :=
                            Some (images @ [snd (GetVBMetaHeader avb vbmeta True)])\<rparr>))))"
proof -
  from assms(4)
  have nz: "flags (avb_vbmeta_image_header_to_host_byte_order avb (vbmeta_ptr vbmeta)) \<noteq> 0"
    by (rule flag_set_nonzero)
  show ?thesis
    using assms nz
    by (cases "out_vbmeta_images st"; cases allow_verification_error; cases is_chained_vbmeta;
        cases "verify_result = kErrorVerification")
       (simp_all add: GetVBMetaHeader_def RollbackDetected_def Let_def)
qed

text \<open>
  A chained \<^verbatim>\<open>vendor\<close> image that verifies with the key of its chain descriptor and whose
  header carries \<^verbatim>\<open>VERIFICATION_DISABLED\<close>: the walk returns \<open>kError\<close>, not \<open>kSuccess\<close>, and
  logs an error, not a warning.
\<close>

theorem LoadAndVerifyVbmetaImpl_chained_disabled_counterexample:
  "VerifyVBMetaData example_avb (example_sys []) example_vendor_image ''vendor'' ''key'' =
     Some (kSuccess,
           Some \<lparr>vbmeta_ptr = [CHR 0x02, CHR 0x00], vbmeta_size = 2, partition = ''vendor''\<rparr>) \<and>
   flags (avb_vbmeta_image_header_to_host_byte_order example_avb [CHR 0x02, CHR 0x00]) AND
     AVB_VBMETA_IMAGE_FLAGS_VERIFICATION_DISABLED example_avb = 2 \<and>
   LoadAndVerifyVbmetaImpl 1 example_avb (example_sys []) example_world ''vendor'' [] [] ''key''
     False True False example_path True \<lparr>out_vbmeta_images = Some [], logged = []\<rparr> =
     Some (Inr (kError,
       \<lparr>out_vbmeta_images = Some [],
        logged = [LERROR_chained_vbmeta_has_flags ''vendor'']\<rparr>))"
  by (simp add: example_vendor_path example_vendor_open example_vendor_loaded
        example_vendor_flags GetVBMetaHeader_def RollbackDetected_def emit_def Let_def)

text \<open>
  The amended statement on that image.  Verified with the key expected: chained, and at
  the top level.  Signed with another key than the one expected: with verification
  errors not allowed, chained and at the top level, and with verification errors allowed
  at the top level.
\<close>

theorem LoadAndVerifyVbmetaImpl_verification_disabled_witness:
  "LoadAndVerifyVbmetaImpl 1 example_avb (example_sys []) example_world ''vendor'' [] [] ''key''
     False True False example_path True \<lparr>out_vbmeta_images = Some [], logged = []\<rparr> =
     Some (Inr (kError,
       \<lparr>out_vbmeta_images = Some [],
        logged = [LERROR_chained_vbmeta_has_flags ''vendor'']\<rparr>)) \<and>
   LoadAndVerifyVbmetaImpl 1 example_avb (example_sys []) example_world ''vendor'' [] [] ''key''
     False True False example_path False \<lparr>out_vbmeta_images = Some [], logged = []\<rparr> =
     Some (Inr (kSuccess,
       \<lparr>out_vbmeta_images =
          Some [\<lparr>vbmeta_ptr = [CHR 0x02, CHR 0x00], vbmeta_size = 256, partition = ''vendor''\<rparr>],
        logged = [LWARNING_verification_disabled ''vendor'']\<rparr>)) \<and>
   LoadAndVerifyVbmetaImpl 1 example_avb (example_sys []) example_world ''vendor'' [] [] ''kez''
     False True False example_path True \<lparr>out_vbmeta_images = Some [], logged = []\<rparr> =
     Some (Inr (kError,
       \<lparr>out_vbmeta_images = Some [],
        logged = [LERROR_verification_error_not_allowed ''vendor'']\<rparr>)) \<and>
   LoadAndVerifyVbmetaImpl 1 example_avb (example_sys []) example_world ''vendor'' [] [] ''kez''
     False True False example_path False \<lparr>out_vbmeta_images = Some [], logged = []\<rparr> =
     Some (Inr (kError,
       \<lparr>out_vbmeta_images = Some [],
        logged = [LERROR_verification_error_not_allowed ''vendor'']\<rparr>)) \<and>
   LoadAndVerifyVbmetaImpl 1 example_avb (example_sys []) example_world ''vendor'' [] [] ''kez''
     True True False example_path False \<lparr>out_vbmeta_images = Some [], logged = []\<rparr> =
     Some (Inr (kErrorVerification,
       \<lparr>out_vbmeta_images =
          Some [\<lparr>vbmeta_ptr = [CHR 0x02, CHR 0x00], vbmeta_size = 256, partition = ''vendor''\<rparr>],
        logged = [LWARNING_verification_disabled ''vendor'']\<rparr>))"
proof -
  let ?vendor = "\<lparr>vbmeta_ptr = [CHR 0x02, CHR 0x00], vbmeta_size = 2,
      partition = ''vendor''\<rparr>"
  let ?st = "\<lparr>out_vbmeta_images = Some [], logged = []\<rparr>"
  have w: "WaitForFile (example_sys [])
      (example_path (AvbPartitionToDevicePatition ''vendor'' [] [])) example_world"
    by (simp add: example_vendor_path example_vendor_open)
  have o: "open_rdonly (example_sys [])
      (example_path (AvbPartitionToDevicePatition ''vendor'' [] [])) example_world =
      Some example_vendor_image"
    by (simp add: example_vendor_path example_vendor_open)
  have f: "flags (avb_vbmeta_image_header_to_host_byte_order example_avb (vbmeta_ptr ?vendor))
      AND AVB_VBMETA_IMAGE_FLAGS_VERIFICATION_DISABLED example_avb \<noteq> 0"
    by (simp add: example_vendor_flags)
  have s: "sizeof_AvbVBMetaImageHeader example_avb = 256"
    "authentication_data_block_size (avb_vbmeta_image_header_to_host_byte_order example_avb d) = 0"
    "auxiliary_data_block_size (avb_vbmeta_image_header_to_host_byte_order example_avb d) = 0"
    for d
    by (simp_all add: example_avb_def)
  note verified = LoadAndVerifyVbmetaImpl_verification_disabled
    [where os = "example_sys []" and device_path_constructor = example_path
       and partition_name = "''vendor''" and ab_suffix = "[]" and ab_other_suffix = "[]"
       and w = example_world and fd = example_vendor_image and avb = example_avb
       and expected = "''key''" and verify_result = kSuccess and vbmeta = ?vendor
       and fuel = 0 and load_chained_vbmeta = True and rollback_protection = False
       and st = ?st,
     OF w o example_vendor_loaded f]
  note resigned = LoadAndVerifyVbmetaImpl_verification_disabled
    [where os = "example_sys []" and device_path_constructor = example_path
       and partition_name = "''vendor''" and ab_suffix = "[]" and ab_other_suffix = "[]"
       and w = example_world and fd = example_vendor_image and avb = example_avb
       and expected = "''kez''" and verify_result = kErrorVerification and vbmeta = ?vendor
       and fuel = 0 and load_chained_vbmeta = True and rollback_protection = False
       and st = ?st,
     OF w o example_vendor_resigned_loaded f]
  from verified [where allow_verification_error = False and is_chained_vbmeta = True]
    verified [where allow_verification_error = False and is_chained_vbmeta = False]
    resigned [where allow_verification_error = False and is_chained_vbmeta = True]
    resigned [where allow_verification_error = False and is_chained_vbmeta = False]
    resigned [where allow_verification_error = True and is_chained_vbmeta = False]
  show ?thesis
    by (simp add: emit_def GetVBMetaHeader_def s del: LoadAndVerifyVbmetaImpl.simps)
qed

text \<open>
  Two walks from the root of the miniature device, with fuel for two levels.  With a
  vendor image that has no flag the walk returns \<open>kSuccess\<close> and collects the two images,
  root first.  With the vendor image that carries \<^verbatim>\<open>VERIFICATION_DISABLED\<close> the walk of the
  root returns \<open>kError\<close> and keeps the root image only.
\<close>

lemma example_paths:
  "example_path (AvbPartitionToDevicePatition ''vbmeta'' [] []) = ''/dev/block/by-name/vbmeta''"
  "example_path (AvbPartitionToDevicePatition ''vendor'' [] []) = ''/dev/block/by-name/vendor''"
  by (simp_all add: example_path_def AvbPartitionToDevicePatition_def rfind_def)

lemma example_root_loaded:
  "VerifyVBMetaData example_avb (example_sys []) example_root_image ''vbmeta'' [] =
     Some (kSuccess,
           Some \<lparr>vbmeta_ptr = example_root_image, vbmeta_size = 65536, partition = ''vbmeta''\<rparr>)"
  by (simp add: VerifyVBMetaData_def StartsWith_def kMaxVBMetaSize_def example_sys_def
        example_root_image_def VerifyVBMetaSignature_def VerifyPublicKeyBlob_def example_avb_def
        word_sless_alt)

lemma example_root_chain:
  "GetChainPartitionInfo example_avb
     \<lparr>vbmeta_ptr = example_root_image, vbmeta_size = 256, partition = ''vbmeta''\<rparr> False =
     ([\<lparr>chain_partition_name = ''vendor'', public_key_blob = ''key''\<rparr>], False)"
  by (simp add: GetChainPartitionInfo_def example_avb_def example_root_image_def)

lemma example_clean_vendor_loaded:
  "VerifyVBMetaData example_avb (example_sys []) example_clean_vendor_image ''vendor'' ''key'' =
     Some (kSuccess,
           Some \<lparr>vbmeta_ptr = [CHR 0x00, CHR 0x00], vbmeta_size = 2, partition = ''vendor''\<rparr>)"
  by (simp add: VerifyVBMetaData_def StartsWith_def kMaxVBMetaSize_def example_sys_def
        example_clean_vendor_image_def VerifyVBMetaSignature_def VerifyPublicKeyBlob_def
        example_avb_def GetAvbFooter_def GetTotalSize_def AVB_FOOTER_SIZE_def word_sless_alt)

lemma example_device_open:
  "WaitForFile (example_sys []) ''/dev/block/by-name/vbmeta'' (example_device vendor_image)"
  "open_rdonly (example_sys []) ''/dev/block/by-name/vbmeta'' (example_device vendor_image) =
     Some example_root_image"
  "WaitForFile (example_sys []) ''/dev/block/by-name/vendor'' (example_device vendor_image)"
  "open_rdonly (example_sys []) ''/dev/block/by-name/vendor'' (example_device vendor_image) =
     Some vendor_image"
  by (simp_all add: example_sys_def example_device_def)

lemma example_root_header:
  "GetVBMetaHeader example_avb
     \<lparr>vbmeta_ptr = example_root_image, vbmeta_size = n, partition = p\<rparr> True =
     (Some \<lparr>authentication_data_block_size = 0, auxiliary_data_block_size = 0,
            rollback_index = 0, flags = 0\<rparr>,
      \<lparr>vbmeta_ptr = example_root_image, vbmeta_size = 256, partition = p\<rparr>)"
proof -
  have "(case example_root_image of [] \<Rightarrow> 0 | c # _ \<Rightarrow> of_nat (of_char c)) = (0 :: uint32_t)"
    by (simp add: example_root_image_def)
  then show ?thesis
    by (simp add: GetVBMetaHeader_def example_avb_def)
qed

lemma example_clean_vendor_header:
  "GetVBMetaHeader example_avb
     \<lparr>vbmeta_ptr = [CHR 0x00, CHR 0x00], vbmeta_size = n, partition = p\<rparr> True =
     (Some \<lparr>authentication_data_block_size = 0, auxiliary_data_block_size = 0,
            rollback_index = 0, flags = 0\<rparr>,
      \<lparr>vbmeta_ptr = [CHR 0x00, CHR 0x00], vbmeta_size = 256, partition = p\<rparr>)"
  by (simp add: GetVBMetaHeader_def example_avb_def)

lemma example_no_chain:
  "GetChainPartitionInfo example_avb
     \<lparr>vbmeta_ptr = [CHR 0x00, CHR 0x00], vbmeta_size = 256, partition = ''vendor''\<rparr> False =
     ([], False)"
  by (simp add: GetChainPartitionInfo_def example_avb_def)

lemma example_walk:
  "LoadAndVerifyVbmetaImpl (Suc (Suc 0)) example_avb (example_sys [])
     (example_device example_clean_vendor_image) ''vbmeta'' [] [] [] False True False
     example_path False \<lparr>out_vbmeta_images = Some [], logged = []\<rparr> =
     Some (Inr (kSuccess,
       \<lparr>out_vbmeta_images =
          Some [\<lparr>vbmeta_ptr = example_root_image, vbmeta_size = 256, partition = ''vbmeta''\<rparr>,
                \<lparr>vbmeta_ptr = [CHR 0x00, CHR 0x00], vbmeta_size = 256,
                  partition = ''vendor''\<rparr>],
        logged = []\<rparr>))"
  by (simp add: example_paths example_device_open example_root_loaded example_root_header
        example_clean_vendor_header example_root_chain example_clean_vendor_loaded
        example_no_chain RollbackDetected_def Let_def)

lemma example_vendor_header:
  "GetVBMetaHeader example_avb
     \<lparr>vbmeta_ptr = [CHR 0x02, CHR 0x00], vbmeta_size = n, partition = p\<rparr> True =
     (Some \<lparr>authentication_data_block_size = 0, auxiliary_data_block_size = 0,
            rollback_index = 0, flags = 2\<rparr>,
      \<lparr>vbmeta_ptr = [CHR 0x02, CHR 0x00], vbmeta_size = 256, partition = p\<rparr>)"
  by (simp add: GetVBMetaHeader_def example_avb_def)

lemma example_walk_disabled_vendor:
  "LoadAndVerifyVbmetaImpl (Suc (Suc 0)) example_avb (example_sys [])
     (example_device example_vendor_image) ''vbmeta'' [] [] [] False True False
     example_path False \<lparr>out_vbmeta_images = Some [], logged = []\<rparr> =
     Some (Inr (kError,
       \<lparr>out_vbmeta_images =
          Some [\<lparr>vbmeta_ptr = example_root_image, vbmeta_size = 256, partition = ''vbmeta''\<rparr>],
        logged = [LERROR_chained_vbmeta_has_flags ''vendor'']\<rparr>))"
  by (simp add: example_paths example_device_open example_root_loaded example_root_header
        example_vendor_header example_root_chain example_vendor_loaded
        RollbackDetected_def Let_def emit_def)

subsection \<open>Merging the verdicts of the chain partitions\<close>

text \<open>
  The loop in terms of the calls it makes.  If the calls for a prefix of the entries
  return verdicts other than \<open>kError\<close>, the loop goes on with the remaining entries from
  the state the last call left, its running verdict \<open>kErrorVerification\<close> when one of the
  calls returned that and the verdict it started with otherwise.  If the call for the
  next entry returns \<open>kError\<close>, the loop returns \<open>kError\<close> with the state that call left.  If the calls for all the
  entries return verdicts other than \<open>kError\<close>, the loop returns \<open>kErrorVerification\<close>
  when one of them did and the verdict it started with otherwise.  And a call of
  \<^verbatim>\<open>LoadAndVerifyVbmetaImpl\<close> that gets as far as the loop is this loop, over the entries
  of \<^verbatim>\<open>GetChainPartitionInfo\<close>, with the recursive calls as the calls it makes.
\<close>
lemma run_children_Cons:
  "run_children child (c # cs) st = Some (rs, s') \<Longrightarrow>
   \<exists>r s rs'. child c st = Some (Inr (r, s)) \<and> run_children child cs s = Some (rs', s') \<and>
     rs = r # rs'"
  by (auto split: option.splits sum.splits)

lemma chain_loop_prefix:
  assumes "run_children child pre st = Some (rs, s)" and "kError \<notin> set rs"
  shows "chain_loop child (pre @ rest) v st =
           chain_loop child rest
             (if kErrorVerification \<in> set rs then kErrorVerification else v) s"
  using assms
proof (induction pre arbitrary: st rs v)
  case Nil
  then show ?case by simp
next
  case (Cons p pre)
  from run_children_Cons [OF Cons.prems(1)]
  obtain r t rs' where c: "child p st = Some (Inr (r, t))"
    and rest: "run_children child pre t = Some (rs', s)" and rs: "rs = r # rs'"
    by blast
  from Cons.prems(2) rs have ne: "r \<noteq> kError" and no: "kError \<notin> set rs'"
    by auto
  show ?case
  proof (cases r)
    case kSuccess
    with c rs Cons.IH [OF rest no, of v] show ?thesis by simp
  next
    case kError
    with ne show ?thesis by simp
  next
    case kErrorVerification
    with c rs Cons.IH [OF rest no, of kErrorVerification] show ?thesis by simp
  qed
qed

lemma chain_loop_no_error:
  "run_children child cs st = Some (rs, s') \<Longrightarrow> kError \<notin> set rs \<Longrightarrow>
   chain_loop child cs v st =
     Some (Inr (if kErrorVerification \<in> set rs then kErrorVerification else v, s'))"
proof (induction cs arbitrary: st rs v)
  case Nil
  then show ?case by simp
next
  case (Cons c cs)
  from run_children_Cons [OF Cons.prems(1)] obtain r s rs' where
    c: "child c st = Some (Inr (r, s))" and r: "run_children child cs s = Some (rs', s')"
    and rs: "rs = r # rs'"
    by blast
  from Cons.prems(2) rs have ne: "r \<noteq> kError" and rest: "kError \<notin> set rs'" by auto
  show ?case
  proof (cases r)
    case kSuccess
    with c rs Cons.IH [OF r rest, of v] show ?thesis by auto
  next
    case kError
    with ne show ?thesis by simp
  next
    case kErrorVerification
    with c rs Cons.IH [OF r rest, of kErrorVerification] show ?thesis by auto
  qed
qed

lemma chain_loop_error:
  "run_children child pre st = Some (rs, s) \<Longrightarrow> kError \<notin> set rs \<Longrightarrow>
   child c s = Some (Inr (kError, s')) \<Longrightarrow>
   chain_loop child (pre @ c # post) v st = Some (Inr (kError, s'))"
proof (induction pre arbitrary: st rs v)
  case Nil
  then show ?case by simp
next
  case (Cons p pre)
  from run_children_Cons [OF Cons.prems(1)] obtain r t rs' where
    p: "child p st = Some (Inr (r, t))" and r: "run_children child pre t = Some (rs', s)"
    and rs: "rs = r # rs'"
    by blast
  from Cons.prems(2) rs have ne: "r \<noteq> kError" and rest: "kError \<notin> set rs'" by auto
  note ih = Cons.IH [OF r rest Cons.prems(3)]
  show ?case
  proof (cases r)
    case kSuccess
    with p ih [of v] show ?thesis by simp
  next
    case kError
    with ne show ?thesis by simp
  next
    case kErrorVerification
    with p ih [of kErrorVerification] show ?thesis by simp
  qed
qed

lemma LoadAndVerifyVbmetaImpl_enters_loop:
  assumes "WaitForFile os
             (device_path_constructor
                (AvbPartitionToDevicePatition partition_name ab_suffix ab_other_suffix)) w"
    and "open_rdonly os
           (device_path_constructor
              (AvbPartitionToDevicePatition partition_name ab_suffix ab_other_suffix)) w = Some fd"
    and "VerifyVBMetaData avb os fd partition_name expected = Some (verify_result, Some vbmeta)"
    and "allow_verification_error \<or> verify_result \<noteq> kErrorVerification"
    and "\<not> is_chained_vbmeta \<or>
         flags (avb_vbmeta_image_header_to_host_byte_order avb (vbmeta_ptr vbmeta)) = 0"
    and "flags (avb_vbmeta_image_header_to_host_byte_order avb (vbmeta_ptr vbmeta)) AND
           AVB_VBMETA_IMAGE_FLAGS_VERIFICATION_DISABLED avb = 0"
    and "out_vbmeta_images st = Some images"
    and "GetChainPartitionInfo avb (snd (GetVBMetaHeader avb vbmeta True)) False =
           (chain_partitions, False)"
  shows "LoadAndVerifyVbmetaImpl (Suc fuel) avb os w partition_name ab_suffix ab_other_suffix
           expected allow_verification_error True rollback_protection device_path_constructor
           is_chained_vbmeta st =
         chain_loop
           (chain_call fuel avb os w ab_suffix ab_other_suffix allow_verification_error True
              rollback_protection device_path_constructor)
           chain_partitions verify_result
           (st\<lparr>out_vbmeta_images := Some (images @ [snd (GetVBMetaHeader avb vbmeta True)])\<rparr>)"
proof -
  from assms(8)
  have g: "GetChainPartitionInfo avb
      (vbmeta\<lparr>vbmeta_size := sizeof_AvbVBMetaImageHeader avb +
         authentication_data_block_size
           (avb_vbmeta_image_header_to_host_byte_order avb (vbmeta_ptr vbmeta)) +
         auxiliary_data_block_size
           (avb_vbmeta_image_header_to_host_byte_order avb (vbmeta_ptr vbmeta))\<rparr>) False =
      (chain_partitions, False)"
    by (simp add: GetVBMetaHeader_def Let_def)
  show ?thesis
    using assms(1-7) g
    by (cases allow_verification_error; cases is_chained_vbmeta)
       (simp_all add: GetVBMetaHeader_def RollbackDetected_def Let_def chain_call_def [abs_def])
qed

text \<open>
  Claim C5.  Let a call of \<^verbatim>\<open>LoadAndVerifyVbmetaImpl\<close> with \<^verbatim>\<open>load_chained_vbmeta\<close> get as
  far as its loop over the chain partitions: the device path appears and opens, the
  VBMeta loads with a verdict \<open>verify_result\<close> that is allowed, a chained image has no
  flags, \<^verbatim>\<open>VERIFICATION_DISABLED\<close> is not set, there is a vector to collect the images,
  and \<^verbatim>\<open>GetChainPartitionInfo\<close> gives the entries \<open>chain_partitions\<close> without a fatal
  error.  Then the result of the call is the loop over \<open>chain_partitions\<close>, in order,
  started with the running verdict \<open>verify_result\<close> from the state with the image
  appended, the child calls being the recursive calls of \<^verbatim>\<open>LoadAndVerifyVbmetaImpl\<close> on the
  entries.  At every child \<open>c\<close> that the loop reaches (the children \<open>pre\<close> before it
  having returned verdicts other than \<open>kError\<close>, with the running verdict
  \<open>running verdicts\<close> they leave): if the call for \<open>c\<close> returns \<open>kError\<close>, the result of
  the whole call is \<open>kError\<close> with the state that child left, whatever siblings \<open>post\<close>
  remain: they are not visited; if it returns \<open>kErrorVerification\<close>, the result is that
  of the loop over the remaining siblings with the running verdict \<open>kErrorVerification\<close>;
  if it returns \<open>kSuccess\<close>, the result is that of the loop over the remaining siblings
  with the running verdict unchanged.  And when all the child calls return verdicts
  other than \<open>kError\<close>, the result is the final running verdict, with the state the
  last child left.
\<close>

theorem LoadAndVerifyVbmetaImpl_chain_verdicts:
  assumes "WaitForFile os
             (device_path_constructor
                (AvbPartitionToDevicePatition partition_name ab_suffix ab_other_suffix)) w"
    and "open_rdonly os
           (device_path_constructor
              (AvbPartitionToDevicePatition partition_name ab_suffix ab_other_suffix)) w = Some fd"
    and "VerifyVBMetaData avb os fd partition_name expected = Some (verify_result, Some vbmeta)"
    and "allow_verification_error \<or> verify_result \<noteq> kErrorVerification"
    and "\<not> is_chained_vbmeta \<or>
         flags (avb_vbmeta_image_header_to_host_byte_order avb (vbmeta_ptr vbmeta)) = 0"
    and "flags (avb_vbmeta_image_header_to_host_byte_order avb (vbmeta_ptr vbmeta)) AND
           AVB_VBMETA_IMAGE_FLAGS_VERIFICATION_DISABLED avb = 0"
    and "out_vbmeta_images st = Some images"
    and "GetChainPartitionInfo avb (snd (GetVBMetaHeader avb vbmeta True)) False =
           (chain_partitions, False)"
  shows
    "(let child = chain_call fuel avb os w ab_suffix ab_other_suffix allow_verification_error
                    True rollback_protection device_path_constructor;
          st1 = st\<lparr>out_vbmeta_images :=
                     Some (images @ [snd (GetVBMetaHeader avb vbmeta True)])\<rparr>;
          running = (\<lambda>verdicts. if kErrorVerification \<in> set verdicts then kErrorVerification
                                else verify_result);
          result = LoadAndVerifyVbmetaImpl (Suc fuel) avb os w partition_name ab_suffix
                     ab_other_suffix expected allow_verification_error True
                     rollback_protection device_path_constructor is_chained_vbmeta st
      in result = chain_loop child chain_partitions verify_result st1 \<and>
         (\<forall>pre c post verdicts s sub_ret s'.
            chain_partitions = pre @ c # post \<and>
            run_children child pre st1 = Some (verdicts, s) \<and> kError \<notin> set verdicts \<and>
            child c s = Some (Inr (sub_ret, s')) \<longrightarrow>
            result =
              (case sub_ret of
                 kError \<Rightarrow> Some (Inr (kError, s'))
               | kErrorVerification \<Rightarrow> chain_loop child post kErrorVerification s'
               | kSuccess \<Rightarrow> chain_loop child post (running verdicts) s')) \<and>
         (\<forall>verdicts s'.
            run_children child chain_partitions st1 = Some (verdicts, s') \<and>
            kError \<notin> set verdicts \<longrightarrow>
            result = Some (Inr (running verdicts, s'))))"
proof -
  note tie = LoadAndVerifyVbmetaImpl_enters_loop
    [where device_path_constructor = device_path_constructor
       and partition_name = partition_name and ab_suffix = ab_suffix
       and ab_other_suffix = ab_other_suffix and fuel = fuel
       and rollback_protection = rollback_protection, OF assms]
  let ?child = "chain_call fuel avb os w ab_suffix ab_other_suffix allow_verification_error
      True rollback_protection device_path_constructor"
  let ?st1 = "st\<lparr>out_vbmeta_images :=
      Some (images @ [snd (GetVBMetaHeader avb vbmeta True)])\<rparr>"
  let ?running = "\<lambda>verdicts. if kErrorVerification \<in> set verdicts then kErrorVerification
      else verify_result"
  have step: "chain_loop ?child chain_partitions verify_result ?st1 =
      (case sub_ret of
         kError \<Rightarrow> Some (Inr (kError, s'))
       | kErrorVerification \<Rightarrow> chain_loop ?child post kErrorVerification s'
       | kSuccess \<Rightarrow> chain_loop ?child post (?running verdicts) s')"
    if "chain_partitions = pre @ c # post \<and>
        run_children ?child pre ?st1 = Some (verdicts, s) \<and> kError \<notin> set verdicts \<and>
        ?child c s = Some (Inr (sub_ret, s'))"
    for pre c post verdicts s sub_ret s'
    using that chain_loop_prefix [of ?child pre ?st1 verdicts s "c # post" verify_result]
    by (cases sub_ret) simp_all
  have fin: "chain_loop ?child chain_partitions verify_result ?st1 =
      Some (Inr (?running verdicts, s'))"
    if "run_children ?child chain_partitions ?st1 = Some (verdicts, s') \<and>
        kError \<notin> set verdicts"
    for verdicts s'
    using that chain_loop_no_error [of ?child chain_partitions ?st1 verdicts s' verify_result]
    by simp
  show ?thesis
    unfolding Let_def tie
    using step fin by blast
qed

text \<open>
  The device with two chain partitions: what its files, its images and its descriptors
  evaluate to, and the four child calls used below.  The vendor image is signed with a
  key other than the one of its chain descriptor, the product image with the right one.
\<close>

lemma example_two_chain_paths:
  "example_path (AvbPartitionToDevicePatition ''vbmeta'' [] []) = ''/dev/block/by-name/vbmeta''"
  "example_path (AvbPartitionToDevicePatition ''vendor'' [] []) = ''/dev/block/by-name/vendor''"
  "example_path (AvbPartitionToDevicePatition ''product'' [] []) = ''/dev/block/by-name/product''"
  by (simp_all add: example_path_def AvbPartitionToDevicePatition_def rfind_def)

lemma example_two_chain_open:
  "WaitForFile (example_sys []) ''/dev/block/by-name/vbmeta'' (example_two_chain_device v p)"
  "open_rdonly (example_sys []) ''/dev/block/by-name/vbmeta'' (example_two_chain_device v p) =
     Some [CHR 0x00, CHR 0x02]"
  "WaitForFile (example_sys []) ''/dev/block/by-name/vendor'' (example_two_chain_device v p)"
  "open_rdonly (example_sys []) ''/dev/block/by-name/vendor'' (example_two_chain_device v p) =
     Some v"
  "WaitForFile (example_sys []) ''/dev/block/by-name/product'' (example_two_chain_device v p)"
  "open_rdonly (example_sys []) ''/dev/block/by-name/product'' (example_two_chain_device v p) =
     Some p"
  by (simp_all add: example_sys_def example_two_chain_device_def)

lemma example_two_chain_loaded:
  "VerifyVBMetaData example_avb_two_chains (example_sys []) [CHR 0x00, CHR 0x02] ''vbmeta'' [] =
     Some (kSuccess,
           Some \<lparr>vbmeta_ptr = [CHR 0x00, CHR 0x02], vbmeta_size = 65536,
                  partition = ''vbmeta''\<rparr>)"
  "VerifyVBMetaData example_avb_two_chains (example_sys []) example_clean_vendor_image
     ''vendor'' ''kez'' =
     Some (kErrorVerification,
           Some \<lparr>vbmeta_ptr = [CHR 0x00, CHR 0x00], vbmeta_size = 2, partition = ''vendor''\<rparr>)"
  "VerifyVBMetaData example_avb_two_chains (example_sys []) example_vendor_image
     ''vendor'' ''kez'' =
     Some (kErrorVerification,
           Some \<lparr>vbmeta_ptr = [CHR 0x02, CHR 0x00], vbmeta_size = 2, partition = ''vendor''\<rparr>)"
  "VerifyVBMetaData example_avb_two_chains (example_sys []) example_clean_vendor_image
     ''product'' ''key'' =
     Some (kSuccess,
           Some \<lparr>vbmeta_ptr = [CHR 0x00, CHR 0x00], vbmeta_size = 2, partition = ''product''\<rparr>)"
  "VerifyVBMetaData example_avb_two_chains (example_sys []) example_vendor_image
     ''product'' ''key'' =
     Some (kSuccess,
           Some \<lparr>vbmeta_ptr = [CHR 0x02, CHR 0x00], vbmeta_size = 2, partition = ''product''\<rparr>)"
  by (simp_all add: VerifyVBMetaData_def StartsWith_def kMaxVBMetaSize_def example_sys_def
        example_clean_vendor_image_def example_vendor_image_def VerifyVBMetaSignature_def
        VerifyPublicKeyBlob_def example_avb_two_chains_def example_avb_def GetAvbFooter_def
        GetTotalSize_def AVB_FOOTER_SIZE_def word_sless_alt)

lemma example_two_chain_header:
  "GetVBMetaHeader example_avb_two_chains
     \<lparr>vbmeta_ptr = f # rest, vbmeta_size = n, partition = name\<rparr> True =
     (Some \<lparr>authentication_data_block_size = 0, auxiliary_data_block_size = 0,
            rollback_index = 0, flags = of_nat (of_char f)\<rparr>,
      \<lparr>vbmeta_ptr = f # rest, vbmeta_size = 256, partition = name\<rparr>)"
  by (simp add: GetVBMetaHeader_def example_avb_two_chains_def example_avb_def)

lemma example_two_chain_flags:
  "flags (avb_vbmeta_image_header_to_host_byte_order example_avb_two_chains (f # rest)) =
     of_nat (of_char f)"
  "AVB_VBMETA_IMAGE_FLAGS_VERIFICATION_DISABLED example_avb_two_chains = 2"
  by (simp_all add: example_avb_two_chains_def example_avb_def)

lemma example_two_chain_info:
  "GetChainPartitionInfo example_avb_two_chains
     \<lparr>vbmeta_ptr = [CHR 0x00, CHR 0x02], vbmeta_size = 256, partition = ''vbmeta''\<rparr> False =
     ([\<lparr>chain_partition_name = ''vendor'', public_key_blob = ''kez''\<rparr>,
       \<lparr>chain_partition_name = ''product'', public_key_blob = ''key''\<rparr>], False)"
  "GetChainPartitionInfo example_avb_two_chains
     \<lparr>vbmeta_ptr = [CHR 0x00, CHR 0x00], vbmeta_size = 256, partition = name\<rparr> False =
     ([], False)"
  by (simp_all add: GetChainPartitionInfo_def example_avb_two_chains_def example_avb_def
        example_chain_descriptors_def)

lemmas example_two_chain_facts =
  example_two_chain_paths example_two_chain_open example_two_chain_loaded
  example_two_chain_header example_two_chain_info example_two_chain_flags
  RollbackDetected_def Let_def emit_def

lemma example_vendor_resigned:
  "chain_call (Suc 0) example_avb_two_chains (example_sys [])
     (example_two_chain_device example_clean_vendor_image p) [] [] True True False example_path
     \<lparr>chain_partition_name = ''vendor'', public_key_blob = ''kez''\<rparr>
     \<lparr>out_vbmeta_images = Some images, logged = lines\<rparr> =
     Some (Inr (kErrorVerification,
       \<lparr>out_vbmeta_images =
          Some (images @ [\<lparr>vbmeta_ptr = [CHR 0x00, CHR 0x00], vbmeta_size = 256,
                           partition = ''vendor''\<rparr>]),
        logged = lines\<rparr>))"
  by (simp add: chain_call_def example_two_chain_facts)

lemma example_vendor_flagged:
  "chain_call (Suc 0) example_avb_two_chains (example_sys [])
     (example_two_chain_device example_vendor_image p) [] [] True True False example_path
     \<lparr>chain_partition_name = ''vendor'', public_key_blob = ''kez''\<rparr>
     \<lparr>out_vbmeta_images = Some images, logged = lines\<rparr> =
     Some (Inr (kError,
       \<lparr>out_vbmeta_images = Some images,
        logged = lines @ [LERROR_chained_vbmeta_has_flags ''vendor'']\<rparr>))"
  by (simp add: chain_call_def example_two_chain_facts)

lemma example_product_clean:
  "chain_call (Suc 0) example_avb_two_chains (example_sys [])
     (example_two_chain_device v example_clean_vendor_image) [] [] True True False example_path
     \<lparr>chain_partition_name = ''product'', public_key_blob = ''key''\<rparr>
     \<lparr>out_vbmeta_images = Some images, logged = lines\<rparr> =
     Some (Inr (kSuccess,
       \<lparr>out_vbmeta_images =
          Some (images @ [\<lparr>vbmeta_ptr = [CHR 0x00, CHR 0x00], vbmeta_size = 256,
                           partition = ''product''\<rparr>]),
        logged = lines\<rparr>))"
  by (simp add: chain_call_def example_two_chain_facts)

lemma example_product_flagged:
  "chain_call (Suc 0) example_avb_two_chains (example_sys [])
     (example_two_chain_device v example_vendor_image) [] [] True True False example_path
     \<lparr>chain_partition_name = ''product'', public_key_blob = ''key''\<rparr>
     \<lparr>out_vbmeta_images = Some images, logged = lines\<rparr> =
     Some (Inr (kError,
       \<lparr>out_vbmeta_images = Some images,
        logged = lines @ [LERROR_chained_vbmeta_has_flags ''product'']\<rparr>))"
  by (simp add: chain_call_def example_two_chain_facts)

text \<open>
  Three walks of that device from \<^verbatim>\<open>vbmeta\<close>, verification errors allowed.  With a vendor
  image that carries flags, the call for \<^verbatim>\<open>vendor\<close> returns \<open>kError\<close> and so does the
  walk: \<^verbatim>\<open>product\<close> is not visited.  With a product image that carries flags, \<^verbatim>\<open>vendor\<close>
  is visited and collected, and the \<open>kError\<close> of \<^verbatim>\<open>product\<close> is the result.  With two
  images without flags, \<^verbatim>\<open>vendor\<close> returns \<open>kErrorVerification\<close>, \<^verbatim>\<open>product\<close> is visited
  and returns \<open>kSuccess\<close>, and the walk returns \<open>kErrorVerification\<close> with the three
  images.
\<close>

theorem LoadAndVerifyVbmetaImpl_chain_verdicts_witness:
  "LoadAndVerifyVbmetaImpl 2 example_avb_two_chains (example_sys [])
     (example_two_chain_device example_vendor_image example_clean_vendor_image)
     ''vbmeta'' [] [] [] True True False example_path False
     \<lparr>out_vbmeta_images = Some [], logged = []\<rparr> =
     Some (Inr (kError,
       \<lparr>out_vbmeta_images =
          Some [\<lparr>vbmeta_ptr = [CHR 0x00, CHR 0x02], vbmeta_size = 256,
                  partition = ''vbmeta''\<rparr>],
        logged = [LERROR_chained_vbmeta_has_flags ''vendor'']\<rparr>)) \<and>
   LoadAndVerifyVbmetaImpl 2 example_avb_two_chains (example_sys [])
     (example_two_chain_device example_clean_vendor_image example_vendor_image)
     ''vbmeta'' [] [] [] True True False example_path False
     \<lparr>out_vbmeta_images = Some [], logged = []\<rparr> =
     Some (Inr (kError,
       \<lparr>out_vbmeta_images =
          Some [\<lparr>vbmeta_ptr = [CHR 0x00, CHR 0x02], vbmeta_size = 256,
                  partition = ''vbmeta''\<rparr>,
                \<lparr>vbmeta_ptr = [CHR 0x00, CHR 0x00], vbmeta_size = 256,
                  partition = ''vendor''\<rparr>],
        logged = [LERROR_chained_vbmeta_has_flags ''product'']\<rparr>)) \<and>
   LoadAndVerifyVbmetaImpl 2 example_avb_two_chains (example_sys [])
     (example_two_chain_device example_clean_vendor_image example_clean_vendor_image)
     ''vbmeta'' [] [] [] True True False example_path False
     \<lparr>out_vbmeta_images = Some [], logged = []\<rparr> =
     Some (Inr (kErrorVerification,
       \<lparr>out_vbmeta_images =
          Some [\<lparr>vbmeta_ptr = [CHR 0x00, CHR 0x02], vbmeta_size = 256,
                  partition = ''vbmeta''\<rparr>,
                \<lparr>vbmeta_ptr = [CHR 0x00, CHR 0x00], vbmeta_size = 256,
                  partition = ''vendor''\<rparr>,
                \<lparr>vbmeta_ptr = [CHR 0x00, CHR 0x00], vbmeta_size = 256,
                  partition = ''product''\<rparr>],
        logged = []\<rparr>))"
proof -
  let ?root = "\<lparr>vbmeta_ptr = [CHR 0x00, CHR 0x02], vbmeta_size = 65536,
      partition = ''vbmeta''\<rparr>"
  let ?vendor = "\<lparr>chain_partition_name = ''vendor'', public_key_blob = ''kez''\<rparr>"
  let ?product = "\<lparr>chain_partition_name = ''product'', public_key_blob = ''key''\<rparr>"
  let ?st = "\<lparr>out_vbmeta_images = Some [], logged = []\<rparr>"
  let ?loaded = "\<lparr>out_vbmeta_images =
      Some [\<lparr>vbmeta_ptr = [CHR 0x00, CHR 0x02], vbmeta_size = 256,
              partition = ''vbmeta''\<rparr>],
      logged = []\<rparr>"
  let ?visited = "\<lparr>out_vbmeta_images =
      Some [\<lparr>vbmeta_ptr = [CHR 0x00, CHR 0x02], vbmeta_size = 256,
              partition = ''vbmeta''\<rparr>,
            \<lparr>vbmeta_ptr = [CHR 0x00, CHR 0x00], vbmeta_size = 256,
              partition = ''vendor''\<rparr>],
      logged = []\<rparr>"
  {
    fix v p
    let ?w = "example_two_chain_device v p"
    have h1: "WaitForFile (example_sys [])
        (example_path (AvbPartitionToDevicePatition ''vbmeta'' [] [])) ?w"
      by (simp add: example_two_chain_facts)
    have h2: "open_rdonly (example_sys [])
        (example_path (AvbPartitionToDevicePatition ''vbmeta'' [] [])) ?w =
        Some [CHR 0x00, CHR 0x02]"
      by (simp add: example_two_chain_facts)
    have h3: "VerifyVBMetaData example_avb_two_chains (example_sys []) [CHR 0x00, CHR 0x02]
        ''vbmeta'' [] = Some (kSuccess, Some ?root)"
      by (simp add: example_two_chain_facts)
    have h4: "True \<or> kSuccess \<noteq> kErrorVerification"
      by simp
    have h5: "\<not> False \<or>
        flags (avb_vbmeta_image_header_to_host_byte_order example_avb_two_chains
                 (vbmeta_ptr ?root)) = 0"
      by simp
    have h6: "flags (avb_vbmeta_image_header_to_host_byte_order example_avb_two_chains
                 (vbmeta_ptr ?root)) AND
        AVB_VBMETA_IMAGE_FLAGS_VERIFICATION_DISABLED example_avb_two_chains = 0"
      by (simp add: example_two_chain_facts)
    have h7: "out_vbmeta_images ?st = Some []"
      by simp
    have h8: "GetChainPartitionInfo example_avb_two_chains
        (snd (GetVBMetaHeader example_avb_two_chains ?root True)) False =
        ([?vendor, ?product], False)"
      by (simp add: example_two_chain_facts)
    note LoadAndVerifyVbmetaImpl_chain_verdicts
      [where fuel = "Suc 0" and avb = example_avb_two_chains and os = "example_sys []"
         and w = ?w and partition_name = "''vbmeta''" and ab_suffix = "[]"
         and ab_other_suffix = "[]" and expected = "[]" and allow_verification_error = True
         and rollback_protection = False and device_path_constructor = example_path
         and is_chained_vbmeta = False and st = ?st,
       OF h1 h2 h3 h4 h5 h6 h7 h8, unfolded Let_def]
  }
  note walk = this
  note stops = walk [THEN conjunct2, THEN conjunct1, rule_format]
  note ends = walk [THEN conjunct2, THEN conjunct2, rule_format]
  have two: "Suc (Suc 0) = 2"
    by simp
  have a: "LoadAndVerifyVbmetaImpl (Suc (Suc 0)) example_avb_two_chains (example_sys [])
      (example_two_chain_device example_vendor_image example_clean_vendor_image)
      ''vbmeta'' [] [] [] True True False example_path False ?st =
      Some (Inr (kError,
        \<lparr>out_vbmeta_images =
           Some [\<lparr>vbmeta_ptr = [CHR 0x00, CHR 0x02], vbmeta_size = 256,
                   partition = ''vbmeta''\<rparr>],
         logged = [LERROR_chained_vbmeta_has_flags ''vendor'']\<rparr>))"
    using stops [where v = example_vendor_image and p = example_clean_vendor_image
                   and pre = "[]" and c = ?vendor and post = "[?product]"
                   and verdicts = "[]" and s = ?loaded and sub_ret = kError
                   and s' = "emit (LERROR_chained_vbmeta_has_flags ''vendor'') ?loaded"]
    by (simp add: example_two_chain_facts example_vendor_flagged
          del: LoadAndVerifyVbmetaImpl.simps)
  have b: "LoadAndVerifyVbmetaImpl (Suc (Suc 0)) example_avb_two_chains (example_sys [])
      (example_two_chain_device example_clean_vendor_image example_vendor_image)
      ''vbmeta'' [] [] [] True True False example_path False ?st =
      Some (Inr (kError,
        \<lparr>out_vbmeta_images =
           Some [\<lparr>vbmeta_ptr = [CHR 0x00, CHR 0x02], vbmeta_size = 256,
                   partition = ''vbmeta''\<rparr>,
                 \<lparr>vbmeta_ptr = [CHR 0x00, CHR 0x00], vbmeta_size = 256,
                   partition = ''vendor''\<rparr>],
         logged = [LERROR_chained_vbmeta_has_flags ''product'']\<rparr>))"
    using stops [where v = example_clean_vendor_image and p = example_vendor_image
                   and pre = "[?vendor]" and c = ?product and post = "[]"
                   and verdicts = "[kErrorVerification]" and s = ?visited and sub_ret = kError
                   and s' = "emit (LERROR_chained_vbmeta_has_flags ''product'') ?visited"]
    by (simp add: example_two_chain_facts example_vendor_resigned example_product_flagged
          del: LoadAndVerifyVbmetaImpl.simps)
  have c: "LoadAndVerifyVbmetaImpl (Suc (Suc 0)) example_avb_two_chains (example_sys [])
      (example_two_chain_device example_clean_vendor_image example_clean_vendor_image)
      ''vbmeta'' [] [] [] True True False example_path False ?st =
      Some (Inr (kErrorVerification,
        \<lparr>out_vbmeta_images =
           Some [\<lparr>vbmeta_ptr = [CHR 0x00, CHR 0x02], vbmeta_size = 256,
                   partition = ''vbmeta''\<rparr>,
                 \<lparr>vbmeta_ptr = [CHR 0x00, CHR 0x00], vbmeta_size = 256,
                   partition = ''vendor''\<rparr>,
                 \<lparr>vbmeta_ptr = [CHR 0x00, CHR 0x00], vbmeta_size = 256,
                   partition = ''product''\<rparr>],
         logged = []\<rparr>))"
    using ends [where v = example_clean_vendor_image and p = example_clean_vendor_image
                  and verdicts = "[kErrorVerification, kSuccess]"
                  and s' = "\<lparr>out_vbmeta_images =
                     Some [\<lparr>vbmeta_ptr = [CHR 0x00, CHR 0x02], vbmeta_size = 256,
                             partition = ''vbmeta''\<rparr>,
                           \<lparr>vbmeta_ptr = [CHR 0x00, CHR 0x00], vbmeta_size = 256,
                             partition = ''vendor''\<rparr>,
                           \<lparr>vbmeta_ptr = [CHR 0x00, CHR 0x00], vbmeta_size = 256,
                             partition = ''product''\<rparr>],
                     logged = []\<rparr>"]
    by (simp add: example_two_chain_facts example_vendor_resigned example_product_clean
          del: LoadAndVerifyVbmetaImpl.simps)
  from a b c show ?thesis
    unfolding two [symmetric] by (simp del: LoadAndVerifyVbmetaImpl.simps)
qed

text \<open>
  The loop as a whole, when every child call returns: the verdict is \<open>kError\<close> if a
  child returns \<open>kError\<close>, else \<open>kErrorVerification\<close> if a child returns that, else the
  verdict the loop started with.
\<close>

lemma chain_loop_verdict:
  assumes "\<forall>chain\<in>set chain_partitions. \<forall>st. \<exists>st'. load chain st = Some (Inr (verdict chain, st'))"
  shows "\<exists>st'. chain_loop load chain_partitions verify_result st =
           Some (Inr (if kError \<in> verdict ` set chain_partitions then kError
                      else if kErrorVerification \<in> verdict ` set chain_partitions
                      then kErrorVerification
                      else verify_result, st'))"
  using assms
proof (induction chain_partitions arbitrary: verify_result st)
  case Nil
  show ?case by simp
next
  case (Cons chain rest)
  from Cons.prems obtain st1 where l: "load chain st = Some (Inr (verdict chain, st1))"
    by (meson list.set_intros(1))
  from Cons.prems
  have r: "\<forall>chain\<in>set rest. \<forall>st. \<exists>st'. load chain st = Some (Inr (verdict chain, st'))"
    by simp
  show ?case
  proof (cases "verdict chain")
    case kSuccess
    with l Cons.IH [OF r, of verify_result st1] show ?thesis by auto
  next
    case kError
    with l show ?thesis by simp
  next
    case kErrorVerification
    with l Cons.IH [OF r, of kErrorVerification st1] show ?thesis by auto
  qed
qed

subsection \<open>Fuel\<close>

text \<open>
  The fuel only bounds the depth of the chain: a call of the walk either returns before
  the loop over the chain partitions, with a result that does not depend on the fuel,
  or it is that loop over the recursive calls.  So a result obtained with some fuel is
  the result with any greater fuel.
\<close>

lemma chain_loop_mono:
  assumes "\<And>chain st r. load1 chain st = Some r \<Longrightarrow> load2 chain st = Some r"
  shows "chain_loop load1 cs v st = Some r \<Longrightarrow> chain_loop load2 cs v st = Some r"
proof (induction cs arbitrary: v st)
  case Nil
  then show ?case by simp
next
  case (Cons c cs)
  from Cons.prems obtain x where l: "load1 c st = Some x"
    by (cases "load1 c st") simp_all
  then have l2: "load2 c st = Some x" by (rule assms)
  show ?case
  proof (cases x)
    case (Inl f)
    with Cons.prems l l2 show ?thesis by auto
  next
    case (Inr p)
    obtain sub_ret st' where p: "p = (sub_ret, st')" by (cases p)
    show ?thesis
      using Cons.prems l l2 Inr p Cons.IH
      by (cases sub_ret) auto
  qed
qed

lemma LoadAndVerifyVbmetaImpl_shape:
  "(\<exists>res. \<forall>fuel.
      LoadAndVerifyVbmetaImpl (Suc fuel) avb os w partition_name ab_suffix ab_other_suffix
        expected allow_verification_error load_chained_vbmeta rollback_protection
        device_path_constructor is_chained_vbmeta st = Some res) \<or>
   (\<exists>chain_partitions verify_result st'. \<forall>fuel.
      LoadAndVerifyVbmetaImpl (Suc fuel) avb os w partition_name ab_suffix ab_other_suffix
        expected allow_verification_error load_chained_vbmeta rollback_protection
        device_path_constructor is_chained_vbmeta st =
      chain_loop
        (\<lambda>chain st. LoadAndVerifyVbmetaImpl fuel avb os w (chain_partition_name chain)
           ab_suffix ab_other_suffix (public_key_blob chain) allow_verification_error
           load_chained_vbmeta rollback_protection device_path_constructor True st)
        chain_partitions verify_result st')"
  (is "?direct \<or> ?loops")
proof -
  let ?path = "device_path_constructor
      (AvbPartitionToDevicePatition partition_name ab_suffix ab_other_suffix)"
  show ?thesis
  proof (cases "WaitForFile os ?path w")
    case False
    then have ?direct by simp
    then show ?thesis ..
  next
    case wait: True
    show ?thesis
    proof (cases "open_rdonly os ?path w")
      case None
      with wait have ?direct by simp
      then show ?thesis ..
    next
      case fd: (Some fd)
      show ?thesis
      proof (cases "VerifyVBMetaData avb os fd partition_name expected")
        case None
        with wait fd have ?direct by simp
        then show ?thesis ..
      next
        case (Some loaded)
        obtain verify_result vbmeta_opt where l: "loaded = (verify_result, vbmeta_opt)"
          by (cases loaded)
        show ?thesis
        proof (cases vbmeta_opt)
          case None
          with wait fd Some l have ?direct by simp
          then show ?thesis ..
        next
          case vb: (Some vbmeta)
          let ?header = "avb_vbmeta_image_header_to_host_byte_order avb (vbmeta_ptr vbmeta)"
          let ?vbmeta = "vbmeta\<lparr>vbmeta_size :=
              sizeof_AvbVBMetaImageHeader avb + authentication_data_block_size ?header +
              auxiliary_data_block_size ?header\<rparr>"
          have h: "GetVBMetaHeader avb vbmeta True = (Some ?header, ?vbmeta)"
            by (simp add: GetVBMetaHeader_def Let_def)
          note facts = wait fd Some l vb h RollbackDetected_def
          show ?thesis
          proof (cases "\<not> allow_verification_error \<and> verify_result = kErrorVerification")
            case True
            with facts have ?direct by simp
            then show ?thesis ..
          next
            case allowed: False
            show ?thesis
            proof (cases "is_chained_vbmeta \<and> flags ?header \<noteq> 0")
              case True
              with facts allowed have ?direct by auto
              then show ?thesis ..
            next
              case noflags: False
              show ?thesis
              proof (cases "flags ?header AND
                  AVB_VBMETA_IMAGE_FLAGS_VERIFICATION_DISABLED avb \<noteq> 0")
                case True
                with facts allowed noflags have ?direct by (auto simp: Let_def)
                then show ?thesis ..
              next
                case enabled: False
                show ?thesis
                proof (cases load_chained_vbmeta)
                  case False
                  with facts allowed noflags enabled have ?direct by (auto simp: Let_def)
                  then show ?thesis ..
                next
                  case chained: True
                  show ?thesis
                  proof (cases "out_vbmeta_images st")
                    case None
                    with facts allowed noflags enabled chained have ?direct
                      by (auto simp: Let_def)
                    then show ?thesis ..
                  next
                    case images: (Some images)
                    obtain chain_partitions fatal_error where g:
                      "GetChainPartitionInfo avb (last (images @ [?vbmeta])) False =
                         (chain_partitions, fatal_error)"
                      by (cases "GetChainPartitionInfo avb (last (images @ [?vbmeta])) False")
                    show ?thesis
                    proof (cases fatal_error)
                      case True
                      with facts allowed noflags enabled chained images g have ?direct
                        by (auto simp: Let_def)
                      then show ?thesis ..
                    next
                      case False
                      with facts allowed noflags enabled chained images g
                      have "\<forall>fuel.
                        LoadAndVerifyVbmetaImpl (Suc fuel) avb os w partition_name ab_suffix
                          ab_other_suffix expected allow_verification_error load_chained_vbmeta
                          rollback_protection device_path_constructor is_chained_vbmeta st =
                        chain_loop
                          (\<lambda>chain st. LoadAndVerifyVbmetaImpl fuel avb os w
                             (chain_partition_name chain) ab_suffix ab_other_suffix
                             (public_key_blob chain) allow_verification_error
                             load_chained_vbmeta rollback_protection device_path_constructor
                             True st)
                          chain_partitions verify_result
                          (st\<lparr>out_vbmeta_images := Some (images @ [?vbmeta])\<rparr>)"
                        by (auto simp: Let_def)
                      then have ?loops by blast
                      then show ?thesis ..
                    qed
                  qed
                qed
              qed
            qed
          qed
        qed
      qed
    qed
  qed
qed

lemma LoadAndVerifyVbmetaImpl_more_fuel:
  "LoadAndVerifyVbmetaImpl fuel avb os w partition_name ab_suffix ab_other_suffix expected
     allow_verification_error load_chained_vbmeta rollback_protection device_path_constructor
     is_chained_vbmeta st = Some r \<Longrightarrow>
   LoadAndVerifyVbmetaImpl (Suc fuel) avb os w partition_name ab_suffix ab_other_suffix expected
     allow_verification_error load_chained_vbmeta rollback_protection device_path_constructor
     is_chained_vbmeta st = Some r"
proof (induction fuel arbitrary: partition_name expected is_chained_vbmeta st r)
  case 0
  then show ?case by simp
next
  case (Suc fuel)
  let ?load = "\<lambda>n chain st. LoadAndVerifyVbmetaImpl n avb os w (chain_partition_name chain)
      ab_suffix ab_other_suffix (public_key_blob chain) allow_verification_error
      load_chained_vbmeta rollback_protection device_path_constructor True st"
  have mono: "chain_loop (?load fuel) cs v s = Some x \<Longrightarrow>
      chain_loop (?load (Suc fuel)) cs v s = Some x" for cs v s x
    by (rule chain_loop_mono [where ?load1.0 = "?load fuel"]) (rule Suc.IH)
  from LoadAndVerifyVbmetaImpl_shape [of avb os w partition_name ab_suffix ab_other_suffix
      expected allow_verification_error load_chained_vbmeta rollback_protection
      device_path_constructor is_chained_vbmeta st]
  show ?case
  proof
    assume "\<exists>res. \<forall>fuel.
      LoadAndVerifyVbmetaImpl (Suc fuel) avb os w partition_name ab_suffix ab_other_suffix
        expected allow_verification_error load_chained_vbmeta rollback_protection
        device_path_constructor is_chained_vbmeta st = Some res"
    then obtain res where "\<And>n. LoadAndVerifyVbmetaImpl (Suc n) avb os w partition_name
        ab_suffix ab_other_suffix expected allow_verification_error load_chained_vbmeta
        rollback_protection device_path_constructor is_chained_vbmeta st = Some res"
      by blast
    from this [of fuel] this [of "Suc fuel"] Suc.prems show ?thesis
      by (simp del: LoadAndVerifyVbmetaImpl.simps)
  next
    assume "\<exists>chain_partitions verify_result st'. \<forall>fuel.
      LoadAndVerifyVbmetaImpl (Suc fuel) avb os w partition_name ab_suffix ab_other_suffix
        expected allow_verification_error load_chained_vbmeta rollback_protection
        device_path_constructor is_chained_vbmeta st =
      chain_loop (?load fuel) chain_partitions verify_result st'"
    then obtain cs v s where "\<And>n. LoadAndVerifyVbmetaImpl (Suc n) avb os w partition_name
        ab_suffix ab_other_suffix expected allow_verification_error load_chained_vbmeta
        rollback_protection device_path_constructor is_chained_vbmeta st =
        chain_loop (?load n) cs v s"
      by blast
    from this [of fuel] this [of "Suc fuel"] Suc.prems mono [of cs v s r] show ?thesis
      by (simp del: LoadAndVerifyVbmetaImpl.simps)
  qed
qed

lemma LoadAndVerifyVbmetaImpl_fuel_mono:
  "LoadAndVerifyVbmetaImpl fuel avb os w partition_name ab_suffix ab_other_suffix expected
     allow_verification_error load_chained_vbmeta rollback_protection device_path_constructor
     is_chained_vbmeta st = Some r \<Longrightarrow>
   LoadAndVerifyVbmetaImpl (fuel + k) avb os w partition_name ab_suffix ab_other_suffix expected
     allow_verification_error load_chained_vbmeta rollback_protection device_path_constructor
     is_chained_vbmeta st = Some r"
proof (induction k)
  case 0
  then show ?case by simp
next
  case (Suc k)
  from LoadAndVerifyVbmetaImpl_more_fuel [OF Suc.IH [OF Suc.prems]]
  show ?case by (simp del: LoadAndVerifyVbmetaImpl.simps)
qed

subsection \<open>Finding the hashtree descriptor\<close>

lemma scan_descriptors_found:
  "found (scan_descriptors avb name ds st) \<longleftrightarrow>
     found st \<or> (\<exists>d\<in>set ds. hashtree_descriptor_matches avb name d)"
proof (induction ds arbitrary: st)
  case Nil
  show ?case by simp
next
  case (Cons d ds)
  show ?case
  proof (cases "found st")
    case True
    then show ?thesis by simp
  next
    case False
    then show ?thesis
      by (auto simp: Cons.IH hashtree_descriptor_matches_def Let_def
               split: option.splits prod.splits)
  qed
qed

lemma scan_descriptors_pointer:
  assumes "found st \<longrightarrow> desc_partition_name st \<noteq> None"
  shows "found (scan_descriptors avb name ds st) \<longrightarrow>
           desc_partition_name (scan_descriptors avb name ds st) \<noteq> None"
  using assms
proof (induction ds arbitrary: st)
  case Nil
  then show ?case by simp
next
  case (Cons d ds)
  show ?case
  proof (cases "found st")
    case True
    with Cons.prems show ?thesis by simp
  next
    case nf: False
    show ?thesis
    proof (cases "avb_descriptor_validate_and_byteswap avb d")
      case None
      with nf Cons.IH [OF Cons.prems] show ?thesis by simp
    next
      case (Some desc)
      show ?thesis
      proof (cases "tag desc = AVB_DESCRIPTOR_TAG_HASHTREE avb")
        case False
        with nf Some Cons.IH [OF Cons.prems] show ?thesis by simp
      next
        case True
        obtain valid hashtree where
          h: "avb_hashtree_descriptor_validate_and_byteswap avb d = (valid, hashtree)"
          by (cases "avb_hashtree_descriptor_validate_and_byteswap avb d")
        let ?st = "st\<lparr>desc_partition_name := Some (drop (sizeof_AvbHashtreeDescriptor avb) d),
                       out_hashtree_desc := hashtree\<rparr>"
        have "scan_descriptors avb name (d # ds) st = scan_descriptors avb name ds ?st \<or>
              scan_descriptors avb name (d # ds) st =
                scan_descriptors avb name ds (?st\<lparr>found := True\<rparr>)"
          using nf Some True h by (simp add: Let_def)
        moreover have "found (scan_descriptors avb name ds ?st) \<longrightarrow>
            desc_partition_name (scan_descriptors avb name ds ?st) \<noteq> None"
          by (rule Cons.IH) simp
        moreover have "found (scan_descriptors avb name ds (?st\<lparr>found := True\<rparr>)) \<longrightarrow>
            desc_partition_name (scan_descriptors avb name ds (?st\<lparr>found := True\<rparr>)) \<noteq> None"
          by (rule Cons.IH) simp
        ultimately show ?thesis by metis
      qed
    qed
  qed
qed

lemma scan_images_found:
  "found (scan_images avb name vs st) \<longleftrightarrow>
     found st \<or>
     (\<exists>v\<in>set vs. \<exists>ds. avb_descriptor_get_all avb (vbmeta_ptr v) (vbmeta_size v) = Some ds \<and>
        (\<exists>d\<in>set ds. hashtree_descriptor_matches avb name d))"
proof (induction vs arbitrary: st)
  case Nil
  show ?case by simp
next
  case (Cons v vs)
  show ?case
  proof (cases "avb_descriptor_get_all avb (vbmeta_ptr v) (vbmeta_size v)")
    case None
    then show ?thesis by (simp add: Cons.IH)
  next
    case (Some ds)
    show ?thesis
    proof (cases "ds = []")
      case True
      with Some show ?thesis by (simp add: Cons.IH)
    next
      case False
      then have "\<not> length ds < 1" by (cases ds) simp_all
      with Some show ?thesis
        by (auto simp: Cons.IH Let_def scan_descriptors_found)
    qed
  qed
qed

lemma scan_images_pointer:
  assumes "found st \<longrightarrow> desc_partition_name st \<noteq> None"
  shows "found (scan_images avb name vs st) \<longrightarrow>
           desc_partition_name (scan_images avb name vs st) \<noteq> None"
  using assms
proof (induction vs arbitrary: st)
  case Nil
  then show ?case by simp
next
  case (Cons v vs)
  show ?case
  proof (cases "avb_descriptor_get_all avb (vbmeta_ptr v) (vbmeta_size v)")
    case None
    with Cons.IH [OF Cons.prems] show ?thesis by simp
  next
    case (Some ds)
    let ?st = "scan_descriptors avb name ds st"
    have inv: "found ?st \<longrightarrow> desc_partition_name ?st \<noteq> None"
      by (rule scan_descriptors_pointer [OF Cons.prems])
    show ?thesis
    proof (cases "length ds < 1")
      case True
      with Some Cons.IH [OF Cons.prems] show ?thesis by simp
    next
      case False
      show ?thesis
      proof (cases "found ?st")
        case True
        with Some False inv show ?thesis by (simp add: Let_def)
      next
        case nf: False
        with Some False Cons.IH [OF inv] show ?thesis by (simp add: Let_def)
      qed
    qed
  qed
qed

lemma example_hashtree_found:
  "GetHashtreeDescriptor example_avb_with_descriptors (example_sys []) ''system''
     [example_vbmeta] example_descriptor [] [] =
     Inr (True,
          \<lparr>dm_verity_version = 1, image_size = 8192, tree_offset = 8192,
           data_block_size = 4096, hash_block_size = 4096, fec_num_roots = 0,
           fec_offset = 0, fec_size = 0, hash_algorithm = ''sha256'',
           partition_name_len = 6, salt_len = 1, root_digest_len = 1\<rparr>,
          ''S'', ''D'')"
  by (simp add: GetHashtreeDescriptor_def example_avb_with_descriptors_def example_avb_def
        example_descriptors_def example_sys_def example_vbmeta_def Let_def)

lemma example_hashtree_prefix:
  "GetHashtreeDescriptor example_avb_with_descriptors (example_sys []) ''syste''
     [example_vbmeta] example_descriptor [] [] =
     Inr (False,
          \<lparr>dm_verity_version = 1, image_size = 8192, tree_offset = 8192,
           data_block_size = 4096, hash_block_size = 4096, fec_num_roots = 0,
           fec_offset = 0, fec_size = 0, hash_algorithm = ''sha256'',
           partition_name_len = 6, salt_len = 1, root_digest_len = 1\<rparr>,
          [], [])"
  by (simp add: GetHashtreeDescriptor_def example_avb_with_descriptors_def example_avb_def
        example_descriptors_def example_sys_def example_vbmeta_def Let_def)

text \<open>
  Claim C7.  \<^verbatim>\<open>GetHashtreeDescriptor\<close> returns, without a fault, and it returns true if
  and only if some VBMeta image of the list has a descriptor that matches the
  partition name: one that passes the generic and the hashtree validation, whose
  \<^verbatim>\<open>partition_name_len\<close> is the length of the name and whose name bytes are the name.
  Descriptors that fail a validation before or after a matching one do not change the
  result, and when no descriptor matches the result is false.
\<close>

theorem GetHashtreeDescriptor_succeeds_iff:
  "(case GetHashtreeDescriptor avb os partition_name vbmeta_images desc_in salt_in digest_in of
      Inl f \<Rightarrow> False
    | Inr (ok, desc, salt, digest) \<Rightarrow>
        ok = (\<exists>vbmeta\<in>set vbmeta_images. \<exists>descriptors.
                avb_descriptor_get_all avb (vbmeta_ptr vbmeta) (vbmeta_size vbmeta) =
                  Some descriptors \<and>
                (\<exists>d\<in>set descriptors. hashtree_descriptor_matches avb partition_name d)))"
proof -
  let ?st0 = "\<lparr>found = False, desc_partition_name = None, out_hashtree_desc = desc_in\<rparr>"
  let ?st = "scan_images avb partition_name vbmeta_images ?st0"
  have f: "found ?st \<longleftrightarrow>
      (\<exists>vbmeta\<in>set vbmeta_images. \<exists>descriptors.
         avb_descriptor_get_all avb (vbmeta_ptr vbmeta) (vbmeta_size vbmeta) = Some descriptors \<and>
         (\<exists>d\<in>set descriptors. hashtree_descriptor_matches avb partition_name d))"
    by (simp add: scan_images_found)
  have p: "found ?st \<longrightarrow> desc_partition_name ?st \<noteq> None"
    by (rule scan_images_pointer) simp
  show ?thesis
  proof (cases "found ?st")
    case False
    with f show ?thesis by (simp add: GetHashtreeDescriptor_def)
  next
    case True
    with p obtain name_ptr where "desc_partition_name ?st = Some name_ptr" by auto
    with True f show ?thesis by (simp add: GetHashtreeDescriptor_def Let_def)
  qed
qed

text \<open>
  An invalid descriptor followed by the descriptor of \<^verbatim>\<open>system\<close>: the lookup of
  \<^verbatim>\<open>system\<close> skips the first and succeeds on the second; the lookup of \<^verbatim>\<open>syste\<close>, a
  prefix of length 5, fails.
\<close>

theorem GetHashtreeDescriptor_succeeds_iff_witness:
  "(\<exists>d\<in>set example_descriptors.
      hashtree_descriptor_matches example_avb_with_descriptors ''system'' d) \<and>
   \<not> (\<exists>d\<in>set example_descriptors.
      hashtree_descriptor_matches example_avb_with_descriptors ''syste'' d) \<and>
   GetHashtreeDescriptor example_avb_with_descriptors (example_sys []) ''system''
     [example_vbmeta] example_descriptor [] [] =
     Inr (True,
          \<lparr>dm_verity_version = 1, image_size = 8192, tree_offset = 8192,
           data_block_size = 4096, hash_block_size = 4096, fec_num_roots = 0,
           fec_offset = 0, fec_size = 0, hash_algorithm = ''sha256'',
           partition_name_len = 6, salt_len = 1, root_digest_len = 1\<rparr>,
          ''S'', ''D'') \<and>
   GetHashtreeDescriptor example_avb_with_descriptors (example_sys []) ''syste''
     [example_vbmeta] example_descriptor [] [] =
     Inr (False,
          \<lparr>dm_verity_version = 1, image_size = 8192, tree_offset = 8192,
           data_block_size = 4096, hash_block_size = 4096, fec_num_roots = 0,
           fec_offset = 0, fec_size = 0, hash_algorithm = ''sha256'',
           partition_name_len = 6, salt_len = 1, root_digest_len = 1\<rparr>,
          [], [])"
proof -
  have g: "avb_descriptor_get_all example_avb_with_descriptors data size =
      Some example_descriptors" for data size
    by (simp add: example_avb_with_descriptors_def)
  from GetHashtreeDescriptor_succeeds_iff [where avb = example_avb_with_descriptors
      and os = "example_sys []" and partition_name = "''system''"
      and vbmeta_images = "[example_vbmeta]" and desc_in = example_descriptor
      and salt_in = "[]" and digest_in = "[]"]
  have m1: "\<exists>d\<in>set example_descriptors.
      hashtree_descriptor_matches example_avb_with_descriptors ''system'' d"
    by (simp add: example_hashtree_found g)
  from GetHashtreeDescriptor_succeeds_iff [where avb = example_avb_with_descriptors
      and os = "example_sys []" and partition_name = "''syste''"
      and vbmeta_images = "[example_vbmeta]" and desc_in = example_descriptor
      and salt_in = "[]" and digest_in = "[]"]
  have m2: "\<not> (\<exists>d\<in>set example_descriptors.
      hashtree_descriptor_matches example_avb_with_descriptors ''syste'' d)"
    by (simp add: example_hashtree_prefix g)
  from m1 m2 example_hashtree_found example_hashtree_prefix show ?thesis by simp
qed

subsection \<open>The number of data blocks\<close>

lemma word_div_mult_bounds:
  fixes n :: uint64_t and d :: uint32_t
  assumes "d \<noteq> 0"
  shows "unat (n div ucast d) = unat n div unat d"
    and "unat (n div ucast d * ucast d) = unat n div unat d * unat d"
proof -
  have "unat d < 2 ^ 32" using unsigned_less [of d] by simp
  then have "unat d < 2 ^ 64" by simp
  then have ud: "unat (ucast d :: uint64_t) = unat d"
    by (simp add: unsigned_ucast_eq take_bit_nat_eq_self)
  show q: "unat (n div ucast d) = unat n div unat d"
    by (simp add: unat_div ud)
  have "unat n div unat d * unat d \<le> unat n" by simp
  also have "unat n < 2 ^ 64" using unsigned_less [of n] by simp
  finally have "unat n div unat d * unat d < 2 ^ 64" .
  moreover have "unat (n div ucast d * ucast d) =
      unat (n div ucast d) * unat (ucast d :: uint64_t) mod 2 ^ 64"
    by (simp only: unat_word_ariths(2)) simp
  ultimately show "unat (n div ucast d * ucast d) = unat n div unat d * unat d"
    by (simp only: q ud mod_less)
qed

text \<open>
  Claim C6, as amended.  For every verity target built from a hashtree descriptor,
  \<open>num_data_blocks\<close> is \<open>image_size\<close> divided by \<open>data_block_size\<close>, rounded down: the
  product of \<open>num_data_blocks\<close> and \<open>data_block_size\<close> is at most \<open>image_size\<close>, less than
  one block short of it, and equal to it exactly when \<open>data_block_size\<close> divides
  \<open>image_size\<close>.
\<close>

theorem VerityTarget_num_data_blocks:
  assumes "VerityTarget os hashtree_desc salt root_digest blk_dev = Inr (Some target)"
  shows "num_data_blocks target = image_size hashtree_desc div ucast (data_block_size hashtree_desc) \<and>
         unat (num_data_blocks target) * unat (data_block_size hashtree_desc)
           \<le> unat (image_size hashtree_desc) \<and>
         unat (image_size hashtree_desc)
           < (unat (num_data_blocks target) + 1) * unat (data_block_size hashtree_desc) \<and>
         (num_data_blocks target * ucast (data_block_size hashtree_desc) = image_size hashtree_desc
            \<longleftrightarrow> unat (data_block_size hashtree_desc) dvd unat (image_size hashtree_desc))"
proof -
  let ?n = "image_size hashtree_desc" and ?d = "data_block_size hashtree_desc"
  from assms have d: "?d \<noteq> 0" and t: "num_data_blocks target = ?n div ucast ?d"
    by (auto simp: VerityTarget_def Let_def split: option.splits if_splits)
  from d have dpos: "0 < unat ?d" by (simp add: unat_gt_0)
  note b = word_div_mult_bounds [OF d, of ?n]
  have le: "unat (num_data_blocks target) * unat ?d \<le> unat ?n"
    by (simp add: t b(1))
  have lt: "unat ?n < (unat (num_data_blocks target) + 1) * unat ?d"
    using dpos dividend_less_div_times [of "unat ?d" "unat ?n"] by (simp add: t b(1) algebra_simps)
  have "(num_data_blocks target * ucast ?d = ?n) = (unat (?n div ucast ?d * ucast ?d) = unat ?n)"
    by (simp add: t word_unat_eq_iff)
  also have "\<dots> = (unat ?n div unat ?d * unat ?d = unat ?n)"
    by (simp add: b(2))
  also have "\<dots> = (unat ?d dvd unat ?n)"
    by (metis dvd_div_mult_self dvd_triv_right)
  finally show ?thesis using t le lt by simp
qed

text \<open>
  An image of 4097 bytes in blocks of 4096 bytes gives one data block, and 4096 is not
  4097.
\<close>

theorem ConstructVerityTable_num_data_blocks_counterexample:
  "(case VerityTarget (example_sys []) example_descriptor ''aa'' ''bb'' ''/dev/block/system'' of
      Inr (Some target) \<Rightarrow>
        num_data_blocks target * ucast (data_block_size example_descriptor)
          \<noteq> image_size example_descriptor
    | _ \<Rightarrow> False)"
  by (simp add: VerityTarget_def example_sys_def example_descriptor_def)

text \<open>The amended statement on that descriptor.\<close>

theorem VerityTarget_num_data_blocks_witness:
  "VerityTarget (example_sys []) example_descriptor ''aa'' ''bb'' ''/dev/block/system'' =
     Inr (Some
       \<lparr>verity_start = 0, verity_length = 8, verity_version = 1,
        data_device = ''/dev/block/system'', hash_device = ''/dev/block/system'',
        verity_data_block_size = 4096, verity_hash_block_size = 4096,
        num_data_blocks = 1, hash_start_block = 2,
        verity_hash_algorithm = ''sha256'', verity_root_digest = ''bb'', verity_salt = ''aa'',
        calls = [UseFec ''/dev/block/system'' 2 3 3,
                 SetVerityMode ''restart_on_corruption'', IgnoreZeroBlocks]\<rparr>) \<and>
   (1 :: nat) * 4096 \<le> 4097 \<and> (4097 :: nat) < (1 + 1) * 4096 \<and> \<not> (4096 :: nat) dvd 4097"
proof -
  have t: "VerityTarget (example_sys []) example_descriptor ''aa'' ''bb'' ''/dev/block/system'' =
     Inr (Some
       \<lparr>verity_start = 0, verity_length = 8, verity_version = 1,
        data_device = ''/dev/block/system'', hash_device = ''/dev/block/system'',
        verity_data_block_size = 4096, verity_hash_block_size = 4096,
        num_data_blocks = 1, hash_start_block = 2,
        verity_hash_algorithm = ''sha256'', verity_root_digest = ''bb'', verity_salt = ''aa'',
        calls = [UseFec ''/dev/block/system'' 2 3 3,
                 SetVerityMode ''restart_on_corruption'', IgnoreZeroBlocks]\<rparr>)"
    by (simp add: VerityTarget_def example_sys_def example_descriptor_def)
  from VerityTarget_num_data_blocks [OF t] show ?thesis
    using t by (simp add: example_descriptor_def)
qed

subsection \<open>The verity mode\<close>

lemma VerityTarget_mode:
  assumes "data_block_size d \<noteq> 0" "hash_block_size d \<noteq> 0"
    and "(case fs_mgr_get_boot_config os ''veritymode'' of None \<Rightarrow> ''enforcing'' | Some m \<Rightarrow> m) = vm"
  shows "vm = ''enforcing'' \<Longrightarrow> \<exists>t. VerityTarget os d salt digest dev = Inr (Some t) \<and>
            verity_modes t = [''restart_on_corruption'']"
    and "vm = ''logging'' \<Longrightarrow> \<exists>t. VerityTarget os d salt digest dev = Inr (Some t) \<and>
            verity_modes t = [''ignore_corruption'']"
    and "vm = ''eio'' \<Longrightarrow> \<exists>t. VerityTarget os d salt digest dev = Inr (Some t) \<and>
            verity_modes t = []"
  using assms
  by (simp_all add: VerityTarget_def verity_modes_def List.map_filter_simps)

lemma VerityTarget_unknown_mode:
  assumes "fs_mgr_get_boot_config os ''veritymode'' = Some m"
    and "m \<notin> {''enforcing'', ''logging'', ''eio''}"
  shows "VerityTarget os d salt digest dev = Inr None"
  using assms by (simp add: VerityTarget_def)

text \<open>
  Claim C8.  When \<^verbatim>\<open>veritymode\<close> is absent or \<^verbatim>\<open>enforcing\<close> the one mode set on the target
  is \<^verbatim>\<open>restart_on_corruption\<close>; when it is \<^verbatim>\<open>logging\<close> it is \<^verbatim>\<open>ignore_corruption\<close>; when it
  is \<^verbatim>\<open>eio\<close> no mode is set.  For every other value \<^verbatim>\<open>ConstructVerityTable\<close> returns false
  and leaves the table as it was, and \<^verbatim>\<open>HashtreeDmVeritySetup\<close> returns false with the
  fstab entry and the world unchanged: no device is created.
\<close>

theorem ConstructVerityTable_verity_mode:
  "(data_block_size d \<noteq> 0 \<and> hash_block_size d \<noteq> 0 \<and>
    fs_mgr_get_boot_config os ''veritymode'' \<in> {None, Some ''enforcing''} \<longrightarrow>
      (\<exists>t. VerityTarget os d salt digest dev = Inr (Some t) \<and>
           ConstructVerityTable os d salt digest dev table = Inr (dm_AddTarget os table t) \<and>
           verity_modes t = [''restart_on_corruption''])) \<and>
   (data_block_size d \<noteq> 0 \<and> hash_block_size d \<noteq> 0 \<and>
    fs_mgr_get_boot_config os ''veritymode'' = Some ''logging'' \<longrightarrow>
      (\<exists>t. VerityTarget os d salt digest dev = Inr (Some t) \<and>
           ConstructVerityTable os d salt digest dev table = Inr (dm_AddTarget os table t) \<and>
           verity_modes t = [''ignore_corruption''])) \<and>
   (data_block_size d \<noteq> 0 \<and> hash_block_size d \<noteq> 0 \<and>
    fs_mgr_get_boot_config os ''veritymode'' = Some ''eio'' \<longrightarrow>
      (\<exists>t. VerityTarget os d salt digest dev = Inr (Some t) \<and>
           ConstructVerityTable os d salt digest dev table = Inr (dm_AddTarget os table t) \<and>
           verity_modes t = [])) \<and>
   (fs_mgr_get_boot_config os ''veritymode'' = Some m \<and>
    m \<notin> {''enforcing'', ''logging'', ''eio''} \<longrightarrow>
      ConstructVerityTable os d salt digest dev table = Inr (False, table) \<and>
      HashtreeDmVeritySetup os fstab_entry d salt digest wait w = Inr (False, fstab_entry, w))"
proof (intro conjI impI)
  assume a: "data_block_size d \<noteq> 0 \<and> hash_block_size d \<noteq> 0 \<and>
    fs_mgr_get_boot_config os ''veritymode'' \<in> {None, Some ''enforcing''}"
  then have "(case fs_mgr_get_boot_config os ''veritymode'' of None \<Rightarrow> ''enforcing'' | Some m \<Rightarrow> m)
      = ''enforcing''" by auto
  from VerityTarget_mode(1) [OF _ _ this refl, of d salt digest dev] a
  obtain t where "VerityTarget os d salt digest dev = Inr (Some t)"
    "verity_modes t = [''restart_on_corruption'']" by blast
  then show "\<exists>t. VerityTarget os d salt digest dev = Inr (Some t) \<and>
           ConstructVerityTable os d salt digest dev table = Inr (dm_AddTarget os table t) \<and>
           verity_modes t = [''restart_on_corruption'']"
    by (simp add: ConstructVerityTable_def)
next
  assume a: "data_block_size d \<noteq> 0 \<and> hash_block_size d \<noteq> 0 \<and>
    fs_mgr_get_boot_config os ''veritymode'' = Some ''logging''"
  then have "(case fs_mgr_get_boot_config os ''veritymode'' of None \<Rightarrow> ''enforcing'' | Some m \<Rightarrow> m)
      = ''logging''" by auto
  from VerityTarget_mode(2) [OF _ _ this refl, of d salt digest dev] a
  obtain t where "VerityTarget os d salt digest dev = Inr (Some t)"
    "verity_modes t = [''ignore_corruption'']" by blast
  then show "\<exists>t. VerityTarget os d salt digest dev = Inr (Some t) \<and>
           ConstructVerityTable os d salt digest dev table = Inr (dm_AddTarget os table t) \<and>
           verity_modes t = [''ignore_corruption'']"
    by (simp add: ConstructVerityTable_def)
next
  assume a: "data_block_size d \<noteq> 0 \<and> hash_block_size d \<noteq> 0 \<and>
    fs_mgr_get_boot_config os ''veritymode'' = Some ''eio''"
  then have "(case fs_mgr_get_boot_config os ''veritymode'' of None \<Rightarrow> ''enforcing'' | Some m \<Rightarrow> m)
      = ''eio''" by auto
  from VerityTarget_mode(3) [OF _ _ this refl, of d salt digest dev] a
  obtain t where "VerityTarget os d salt digest dev = Inr (Some t)"
    "verity_modes t = []" by blast
  then show "\<exists>t. VerityTarget os d salt digest dev = Inr (Some t) \<and>
           ConstructVerityTable os d salt digest dev table = Inr (dm_AddTarget os table t) \<and>
           verity_modes t = []"
    by (simp add: ConstructVerityTable_def)
next
  assume a: "fs_mgr_get_boot_config os ''veritymode'' = Some m \<and>
    m \<notin> {''enforcing'', ''logging'', ''eio''}"
  then have t: "\<And>dev. VerityTarget os d salt digest dev = Inr None"
    using VerityTarget_unknown_mode by blast
  show "ConstructVerityTable os d salt digest dev table = Inr (False, table)"
    by (simp add: ConstructVerityTable_def t)
  show "HashtreeDmVeritySetup os fstab_entry d salt digest wait w = Inr (False, fstab_entry, w)"
    by (simp add: HashtreeDmVeritySetup_def ConstructVerityTable_def t)
qed

text \<open>The four rows of the table and an unknown mode, on the miniature system.\<close>

theorem ConstructVerityTable_verity_mode_witness:
  "(\<exists>t. VerityTarget (example_sys []) example_descriptor ''aa'' ''bb'' ''/dev/dm'' = Inr (Some t) \<and>
        verity_modes t = [''restart_on_corruption'']) \<and>
   (\<exists>t. VerityTarget (example_sys [(''veritymode'', ''enforcing'')]) example_descriptor
          ''aa'' ''bb'' ''/dev/dm'' = Inr (Some t) \<and>
        verity_modes t = [''restart_on_corruption'']) \<and>
   (\<exists>t. VerityTarget (example_sys [(''veritymode'', ''logging'')]) example_descriptor
          ''aa'' ''bb'' ''/dev/dm'' = Inr (Some t) \<and>
        verity_modes t = [''ignore_corruption'']) \<and>
   (\<exists>t. VerityTarget (example_sys [(''veritymode'', ''eio'')]) example_descriptor
          ''aa'' ''bb'' ''/dev/dm'' = Inr (Some t) \<and>
        verity_modes t = []) \<and>
   HashtreeDmVeritySetup (example_sys [(''veritymode'', ''panic'')]) example_entry
     example_descriptor ''aa'' ''bb'' True [] = Inr (False, example_entry, [])"
proof -
  have d: "data_block_size example_descriptor \<noteq> 0 \<and> hash_block_size example_descriptor \<noteq> 0"
    by (simp add: example_descriptor_def)
  have k: "fs_mgr_get_boot_config (example_sys c) ''veritymode'' = map_of c ''veritymode''" for c
    by (simp add: example_sys_def)
  note m = ConstructVerityTable_verity_mode [where d = example_descriptor
      and table = "([], False)" and m = "''panic''" and fstab_entry = example_entry
      and wait = True and w = "[]"]
  have c1: "\<exists>t. VerityTarget (example_sys []) example_descriptor ''aa'' ''bb'' ''/dev/dm'' =
      Inr (Some t) \<and> verity_modes t = [''restart_on_corruption'']"
    using m [where os = "example_sys []" and salt = "''aa''" and digest = "''bb''"
               and dev = "''/dev/dm''"] d k [of "[]"]
    by auto
  have c2: "\<exists>t. VerityTarget (example_sys [(''veritymode'', ''enforcing'')]) example_descriptor
      ''aa'' ''bb'' ''/dev/dm'' = Inr (Some t) \<and> verity_modes t = [''restart_on_corruption'']"
    using m [where os = "example_sys [(''veritymode'', ''enforcing'')]" and salt = "''aa''"
               and digest = "''bb''" and dev = "''/dev/dm''"] d
      k [of "[(''veritymode'', ''enforcing'')]"]
    by auto
  have c3: "\<exists>t. VerityTarget (example_sys [(''veritymode'', ''logging'')]) example_descriptor
      ''aa'' ''bb'' ''/dev/dm'' = Inr (Some t) \<and> verity_modes t = [''ignore_corruption'']"
    using m [where os = "example_sys [(''veritymode'', ''logging'')]" and salt = "''aa''"
               and digest = "''bb''" and dev = "''/dev/dm''"] d
      k [of "[(''veritymode'', ''logging'')]"]
    by auto
  have c4: "\<exists>t. VerityTarget (example_sys [(''veritymode'', ''eio'')]) example_descriptor
      ''aa'' ''bb'' ''/dev/dm'' = Inr (Some t) \<and> verity_modes t = []"
    using m [where os = "example_sys [(''veritymode'', ''eio'')]" and salt = "''aa''"
               and digest = "''bb''" and dev = "''/dev/dm''"] d
      k [of "[(''veritymode'', ''eio'')]"]
    by auto
  have c5: "HashtreeDmVeritySetup (example_sys [(''veritymode'', ''panic'')]) example_entry
     example_descriptor ''aa'' ''bb'' True [] = Inr (False, example_entry, [])"
    using m [where os = "example_sys [(''veritymode'', ''panic'')]" and salt = "''aa''"
               and digest = "''bb''" and dev = "''/dev/dm''"]
      k [of "[(''veritymode'', ''panic'')]"]
    by simp
  from c1 c2 c3 c4 c5 show ?thesis by blast
qed

subsection \<open>Forward error correction\<close>

text \<open>
  Claim C9.  A target built from a descriptor carries a \<open>UseFec\<close> call if and only if
  \<open>fec_size\<close> is greater than 0; the call then names the block device and
  \<open>fec_num_roots\<close>, and both its number of blocks and its start are \<open>fec_offset\<close> divided
  by \<open>data_block_size\<close>.  When \<open>fec_size\<close> is 0 the target carries no such call.
\<close>

theorem VerityTarget_fec:
  assumes "VerityTarget os d salt digest dev = Inr (Some t)"
  shows "(fec_calls t \<noteq> [] \<longleftrightarrow> 0 < fec_size d) \<and>
         fec_calls t =
           (if 0 < fec_size d
            then [UseFec dev (fec_num_roots d)
                    (fec_offset d div ucast (data_block_size d))
                    (fec_offset d div ucast (data_block_size d))]
            else []) \<and>
         (fec_size d = 0 \<longrightarrow> fec_calls t = [])"
  using assms
  by (auto simp: VerityTarget_def fec_calls_def Let_def word_gt_0
           split: option.splits if_splits)

text \<open>A descriptor with FEC data and the same descriptor without.\<close>

theorem VerityTarget_fec_witness:
  "(\<exists>t. VerityTarget (example_sys []) example_descriptor ''aa'' ''bb'' ''/dev/dm'' = Inr (Some t) \<and>
        fec_calls t = [UseFec ''/dev/dm'' 2 3 3]) \<and>
   (\<exists>t. VerityTarget (example_sys []) (example_descriptor\<lparr>fec_size := 0\<rparr>) ''aa'' ''bb'' ''/dev/dm''
          = Inr (Some t) \<and>
        fec_calls t = [])"
proof -
  obtain t where t: "VerityTarget (example_sys []) example_descriptor ''aa'' ''bb'' ''/dev/dm'' =
      Inr (Some t)"
    by (simp add: VerityTarget_def example_sys_def example_descriptor_def)
  obtain u where u: "VerityTarget (example_sys []) (example_descriptor\<lparr>fec_size := 0\<rparr>)
      ''aa'' ''bb'' ''/dev/dm'' = Inr (Some u)"
    by (simp add: VerityTarget_def example_sys_def example_descriptor_def)
  from VerityTarget_fec [OF t] have "fec_calls t = [UseFec ''/dev/dm'' 2 3 3]"
    by (simp add: example_descriptor_def)
  moreover from VerityTarget_fec [OF u] have "fec_calls u = []"
    by (simp add: example_descriptor_def)
  ultimately show ?thesis using t u by blast
qed

subsection \<open>The fstab entry on the failure paths of the setup\<close>

text \<open>
  Claim C10.  When the device is created, its path is obtained, the caller asked to
  wait and the path does not appear, \<^verbatim>\<open>HashtreeDmVeritySetup\<close> returns false with
  \<open>blk_device\<close> already replaced by the path of the mapper device.  When the table cannot
  be constructed, is not valid, or the device cannot be created, it returns false with
  the fstab entry unchanged; so it does when the path of the created device cannot be
  obtained.
\<close>

theorem HashtreeDmVeritySetup_not_atomic:
  "(ConstructVerityTable os d salt digest (blk_device e) (dm_new_table os) = Inr (True, table) \<and>
    dm_valid os table \<and>
    dm_CreateDevice os (basename os (mount_point e)) (dm_set_readonly os table True) w = (True, w') \<and>
    dm_GetDmDevicePathByName os (basename os (mount_point e)) w' = Some dev_path \<and>
    wait \<and> \<not> WaitForFile os dev_path (SetBlockDeviceReadOnly os (blk_device e) w') \<longrightarrow>
      HashtreeDmVeritySetup os e d salt digest wait w =
        Inr (False, e\<lparr>blk_device := dev_path\<rparr>, SetBlockDeviceReadOnly os (blk_device e) w')) \<and>
   (ConstructVerityTable os d salt digest (blk_device e) (dm_new_table os) = Inr (False, table) \<longrightarrow>
      HashtreeDmVeritySetup os e d salt digest wait w = Inr (False, e, w)) \<and>
   (ConstructVerityTable os d salt digest (blk_device e) (dm_new_table os) = Inr (True, table) \<and>
    \<not> dm_valid os table \<longrightarrow>
      HashtreeDmVeritySetup os e d salt digest wait w = Inr (False, e, w)) \<and>
   (ConstructVerityTable os d salt digest (blk_device e) (dm_new_table os) = Inr (True, table) \<and>
    dm_valid os table \<and>
    dm_CreateDevice os (basename os (mount_point e)) (dm_set_readonly os table True) w = (False, w') \<longrightarrow>
      HashtreeDmVeritySetup os e d salt digest wait w = Inr (False, e, w')) \<and>
   (ConstructVerityTable os d salt digest (blk_device e) (dm_new_table os) = Inr (True, table) \<and>
    dm_valid os table \<and>
    dm_CreateDevice os (basename os (mount_point e)) (dm_set_readonly os table True) w = (True, w') \<and>
    dm_GetDmDevicePathByName os (basename os (mount_point e)) w' = None \<longrightarrow>
      HashtreeDmVeritySetup os e d salt digest wait w = Inr (False, e, w'))"
  by (simp add: HashtreeDmVeritySetup_def Let_def)

text \<open>
  The five paths on the miniature system: a node that never appears, an unknown verity
  mode, a table that is not valid, a device mapper that refuses, and one that knows no
  path.
\<close>

theorem HashtreeDmVeritySetup_not_atomic_witness:
  "HashtreeDmVeritySetup (example_sys []) example_entry example_descriptor ''aa'' ''bb'' True [] =
     Inr (False, \<lparr>blk_device = ''/dev/block/dm-0'', mount_point = ''/system''\<rparr>, []) \<and>
   HashtreeDmVeritySetup (example_sys [(''veritymode'', ''panic'')]) example_entry
     example_descriptor ''aa'' ''bb'' True [] = Inr (False, example_entry, []) \<and>
   HashtreeDmVeritySetup ((example_sys [])\<lparr>dm_valid := \<lambda>table. False\<rparr>) example_entry
     example_descriptor ''aa'' ''bb'' True [] = Inr (False, example_entry, []) \<and>
   HashtreeDmVeritySetup ((example_sys [])\<lparr>dm_CreateDevice := \<lambda>name table w. (False, w)\<rparr>)
     example_entry example_descriptor ''aa'' ''bb'' True [] = Inr (False, example_entry, []) \<and>
   HashtreeDmVeritySetup ((example_sys [])\<lparr>dm_GetDmDevicePathByName := \<lambda>name w. None\<rparr>)
     example_entry example_descriptor ''aa'' ''bb'' True [] = Inr (False, example_entry, [])"
proof -
  let ?target = "\<lparr>verity_start = 0, verity_length = 8, verity_version = 1,
        data_device = ''/dev/block/by-name/system'', hash_device = ''/dev/block/by-name/system'',
        verity_data_block_size = 4096, verity_hash_block_size = 4096,
        num_data_blocks = 1, hash_start_block = 2,
        verity_hash_algorithm = ''sha256'', verity_root_digest = ''bb'', verity_salt = ''aa'',
        calls = [UseFec ''/dev/block/by-name/system'' 2 3 3,
                 SetVerityMode ''restart_on_corruption'', IgnoreZeroBlocks]\<rparr>"
  let ?invalid = "(example_sys [])\<lparr>dm_valid := \<lambda>table. False\<rparr>"
  let ?refuse = "(example_sys [])\<lparr>dm_CreateDevice := \<lambda>name table w. (False, w)\<rparr>"
  let ?nopath = "(example_sys [])\<lparr>dm_GetDmDevicePathByName := \<lambda>name w. None\<rparr>"
  have c: "ConstructVerityTable (example_sys []) example_descriptor ''aa'' ''bb''
      (blk_device example_entry) (dm_new_table (example_sys [])) = Inr (True, [?target], False)"
    by (simp add: ConstructVerityTable_def VerityTarget_def example_sys_def
          example_descriptor_def example_entry_def)
  have ci: "ConstructVerityTable ?invalid example_descriptor ''aa'' ''bb''
      (blk_device example_entry) (dm_new_table ?invalid) = Inr (True, [?target], False)"
    by (simp add: ConstructVerityTable_def VerityTarget_def example_sys_def
          example_descriptor_def example_entry_def)
  have cr: "ConstructVerityTable ?refuse example_descriptor ''aa'' ''bb''
      (blk_device example_entry) (dm_new_table ?refuse) = Inr (True, [?target], False)"
    by (simp add: ConstructVerityTable_def VerityTarget_def example_sys_def
          example_descriptor_def example_entry_def)
  have cn: "ConstructVerityTable ?nopath example_descriptor ''aa'' ''bb''
      (blk_device example_entry) (dm_new_table ?nopath) = Inr (True, [?target], False)"
    by (simp add: ConstructVerityTable_def VerityTarget_def example_sys_def
          example_descriptor_def example_entry_def)
  have cp: "ConstructVerityTable (example_sys [(''veritymode'', ''panic'')]) example_descriptor
      ''aa'' ''bb'' (blk_device example_entry)
      (dm_new_table (example_sys [(''veritymode'', ''panic'')])) = Inr (False, [], False)"
    by (simp add: ConstructVerityTable_def VerityTarget_def example_sys_def)
  note a = HashtreeDmVeritySetup_not_atomic [where e = example_entry and d = example_descriptor
      and salt = "''aa''" and digest = "''bb''" and wait = True and w = "[]" and w' = "[]"
      and dev_path = "''/dev/block/dm-0''"]
  have w1: "HashtreeDmVeritySetup (example_sys []) example_entry example_descriptor
      ''aa'' ''bb'' True [] =
      Inr (False, \<lparr>blk_device = ''/dev/block/dm-0'', mount_point = ''/system''\<rparr>, [])"
    using a [where os = "example_sys []" and table = "([?target], False)"] c
    by (simp add: example_sys_def example_entry_def)
  have w2: "HashtreeDmVeritySetup (example_sys [(''veritymode'', ''panic'')]) example_entry
      example_descriptor ''aa'' ''bb'' True [] = Inr (False, example_entry, [])"
    using a [where os = "example_sys [(''veritymode'', ''panic'')]" and table = "([], False)"] cp
    by simp
  have w3: "HashtreeDmVeritySetup ?invalid example_entry example_descriptor ''aa'' ''bb'' True [] =
      Inr (False, example_entry, [])"
    using a [where os = ?invalid and table = "([?target], False)"] ci
    by simp
  have w4: "HashtreeDmVeritySetup ?refuse example_entry example_descriptor ''aa'' ''bb'' True [] =
      Inr (False, example_entry, [])"
    using a [where os = ?refuse and table = "([?target], False)"] cr
    by (simp add: example_sys_def)
  have w5: "HashtreeDmVeritySetup ?nopath example_entry example_descriptor ''aa'' ''bb'' True [] =
      Inr (False, example_entry, [])"
    using a [where os = ?nopath and table = "([?target], False)"] cn
    by (simp add: example_sys_def)
  from w1 w2 w3 w4 w5 show ?thesis by simp
qed

end
